theory Spec2Isabelle
  imports Complex_Main "HOL-Library.Sublist" "HOL-Library.AList" "HOL-Library.Multiset"
begin

section \<open>JavaScript values as the handlers see them\<close>

text \<open>
  The server (\<^verbatim>\<open>src/unnamed/part_000\<close>, lines 1-379) is a set of Hono route handlers.
  Every handler reads a JSON body with \<^verbatim>\<open>await c.req.json()\<close>, destructures it, tests
  fields with \<^verbatim>\<open>!x\<close>, \<^verbatim>\<open>x || null\<close>, \<^verbatim>\<open>x < 1\<close>, \<^verbatim>\<open>x.length\<close> and template literals, and
  answers with \<^verbatim>\<open>c.json(obj, status)\<close>. The values are therefore modelled as JavaScript
  values, with the coercions the source relies on written out.

  A number is an IEEE double: a finite double is a rational, and the three other values
  are kept apart. Minus zero is identified with zero (both are falsy and compare equal).
  A string is a list of characters, one \<^typ>\<open>char\<close> per UTF-16 code unit, so that
  \<^const>\<open>length\<close> is JavaScript's \<^verbatim>\<open>.length\<close>.
\<close>

datatype jsnum = Fin rat | PosInf | NegInf | NaN

datatype jsval =
    Undefined
  | Null
  | Bool bool
  | Num jsnum
  | Str string
  | Arr "jsval list"
  | Obj "(string \<times> jsval) list"

text \<open>A thrown exception, with its \<^verbatim>\<open>message\<close> (empty when it has none).\<close>

datatype exn = Exn string

section \<open>The external collaborators\<close>

text \<open>
  The identity provider (the Supabase client \<^verbatim>\<open>supabase.auth\<close>), the clock and two
  built-ins of the runtime are not code of the repository. Each is a parameter of the
  model: one \<^verbatim>\<open>env\<close> holds what they answer during one request. A call that throws
  answers \<^const>\<open>Inl\<close>.
\<close>

record provider_user =
  user_id :: string
  user_email :: "string option"

text \<open>
  \<^verbatim>\<open>createUser\<close> answers \<^verbatim>\<open>{ data, error }\<close>: an error with its message (empty when it
  has none), no error and no \<^verbatim>\<open>data.user\<close>, or the created user.
\<close>

datatype create_result = CreateError string | CreateNoUser | Created provider_user

text \<open>Every call a handler makes to the provider or to the key-value store.\<close>

datatype call =
    ListUsers
  | CreateUser jsval
  | GetUser "string option"
  | GetUserById string
  | KvSet string jsval
  | KvGet string
  | KvGetByPrefix string

text \<open>
  \<^item> \<^verbatim>\<open>StringToNumber\<close>, \<^verbatim>\<open>NumberToString\<close>: the runtime's conversions between strings and
    numbers.
  \<^item> \<^verbatim>\<open>listUsers\<close>: the users of \<^verbatim>\<open>supabase.auth.admin.listUsers()\<close> (the empty list when
    \<^verbatim>\<open>data\<close> or \<^verbatim>\<open>data.users\<close> is missing: both make \<^verbatim>\<open>userExists\<close> falsy).
  \<^item> \<^verbatim>\<open>createUser\<close>: \<^verbatim>\<open>supabase.auth.admin.createUser(args)\<close>.
  \<^item> \<^verbatim>\<open>getUser\<close>: \<^verbatim>\<open>supabase.auth.getUser(token)\<close>; \<^const>\<open>None\<close> when it answers an error
    or no \<^verbatim>\<open>data.user\<close>.
  \<^item> \<^verbatim>\<open>getUserById\<close>: \<^verbatim>\<open>userData?.user?.user_metadata\<close> of
    \<^verbatim>\<open>supabase.auth.admin.getUserById(id)\<close>.
  \<^item> \<^verbatim>\<open>Date_now\<close>, \<^verbatim>\<open>toISOString\<close>: \<^verbatim>\<open>Date.now()\<close> and \<^verbatim>\<open>new Date().toISOString()\<close>.
  \<^item> \<^verbatim>\<open>kv_fault\<close>: whether a call to the store fails, and with which exception.
  \<^item> \<^verbatim>\<open>TypeError_destructure\<close>, \<^verbatim>\<open>TypeError_primitive\<close>: the engine's message texts for the
    two TypeErrors that the handlers can run into, destructuring \<^verbatim>\<open>null\<close> and converting
    an object that has no usable \<^verbatim>\<open>toString\<close> to a primitive value.
\<close>

record env =
  StringToNumber :: "string \<Rightarrow> jsnum"
  NumberToString :: "jsnum \<Rightarrow> string"
  listUsers :: "exn + provider_user list"
  createUser :: "jsval \<Rightarrow> exn + create_result"
  getUser :: "string option \<Rightarrow> exn + provider_user option"
  getUserById :: "string \<Rightarrow> exn + jsval"
  Date_now :: nat
  toISOString :: string
  kv_fault :: "call \<Rightarrow> exn option"
  TypeError_destructure :: string
  TypeError_primitive :: string

section \<open>Coercions and string operations\<close>

text \<open>ToBoolean: what \<^verbatim>\<open>!x\<close> and \<^verbatim>\<open>x || y\<close> test.\<close>

fun truthy :: "jsval \<Rightarrow> bool" where
  "truthy Undefined = False"
| "truthy Null = False"
| "truthy (Bool b) = b"
| "truthy (Num n) = (n \<noteq> Fin 0 \<and> n \<noteq> NaN)"
| "truthy (Str s) = (s \<noteq> [])"
| "truthy (Arr xs) = True"
| "truthy (Obj fs) = True"

text \<open>\<^verbatim>\<open>a || b\<close>\<close>

definition js_or :: "jsval \<Rightarrow> jsval \<Rightarrow> jsval" where
  "js_or a b = (if truthy a then a else b)"

text \<open>
  Property lookup on a parsed object: the value, or \<^verbatim>\<open>undefined\<close>. An object lists
  its properties, each name once; were a name listed twice, the first pair would count.
\<close>

definition field :: "(string \<times> jsval) list \<Rightarrow> string \<Rightarrow> jsval" where
  "field fs k = (case map_of fs k of None \<Rightarrow> Undefined | Some v \<Rightarrow> v)"

text \<open>
  \<^verbatim>\<open>const { a, b } = await c.req.json()\<close>: destructuring \<^verbatim>\<open>null\<close> throws a TypeError; an
  object gives its fields; a string, number, boolean or array has none of the names the
  handlers ask for, so each of them is \<^verbatim>\<open>undefined\<close>.
\<close>

fun destructure :: "env \<Rightarrow> jsval \<Rightarrow> exn + (string \<Rightarrow> jsval)" where
  "destructure e Null = Inl (Exn (TypeError_destructure e))"
| "destructure e Undefined = Inl (Exn (TypeError_destructure e))"
| "destructure e (Obj fs) = Inr (field fs)"
| "destructure e v = Inr (\<lambda>k. Undefined)"

text \<open>\<^verbatim>\<open>x.length\<close> for a value that is neither \<^verbatim>\<open>null\<close> nor \<^verbatim>\<open>undefined\<close>.\<close>

fun length_prop :: "jsval \<Rightarrow> jsval" where
  "length_prop (Str s) = Num (Fin (of_nat (length s)))"
| "length_prop (Arr xs) = Num (Fin (of_nat (length xs)))"
| "length_prop (Obj fs) = field fs ''length''"
| "length_prop v = Undefined"

text \<open>
  ToString, as a template literal \<^verbatim>\<open>`${x}`\<close> applies it; it can throw. The values come
  from \<^verbatim>\<open>JSON.parse\<close>, so no property is a function. An object is converted by
  OrdinaryToPrimitive: with an own property named \<^verbatim>\<open>toString\<close> (which hides
  \<^verbatim>\<open>Object.prototype.toString\<close> and is not callable) no method gives a primitive value,
  and the conversion throws a TypeError; without one the result is \<^verbatim>\<open>[object Object]\<close>.
  An array is converted by \<^verbatim>\<open>Array.prototype.join\<close> with the separator \<^verbatim>\<open>,\<close>: its elements
  are converted in turn, \<^verbatim>\<open>null\<close> and \<^verbatim>\<open>undefined\<close> elements to the empty string, and the
  first element that throws makes the whole conversion throw.
\<close>

fun ToString :: "env \<Rightarrow> jsval \<Rightarrow> exn + string"
  and join :: "env \<Rightarrow> jsval list \<Rightarrow> exn + string" where
  "ToString e Undefined = Inr ''undefined''"
| "ToString e Null = Inr ''null''"
| "ToString e (Bool b) = Inr (if b then ''true'' else ''false'')"
| "ToString e (Num n) = Inr (NumberToString e n)"
| "ToString e (Str s) = Inr s"
| "ToString e (Arr xs) = join e xs"
| "ToString e (Obj fs) =
     (if map_of fs ''toString'' \<noteq> None then Inl (Exn (TypeError_primitive e))
      else Inr ''[object Object]'')"
| "join e [] = Inr []"
| "join e (x # xs) =
     (case (if x = Null \<or> x = Undefined then Inr [] else ToString e x) of
        Inl err \<Rightarrow> Inl err
      | Inr s \<Rightarrow>
          if xs = [] then Inr s
          else (case join e xs of Inl err \<Rightarrow> Inl err | Inr r \<Rightarrow> Inr (s @ '','' @ r)))"

text \<open>
  ToNumber, as \<^verbatim>\<open><\<close> and \<^verbatim>\<open>>\<close> against a number apply it to the other operand. An
  object or an array is first converted to a primitive value, which throws in the same
  cases as above (\<^verbatim>\<open>valueOf\<close> gives no primitive value for a parsed object or array, so
  the conversion falls through to \<^verbatim>\<open>toString\<close>).
\<close>

fun ToNumber :: "env \<Rightarrow> jsval \<Rightarrow> exn + jsnum" where
  "ToNumber e Undefined = Inr NaN"
| "ToNumber e Null = Inr (Fin 0)"
| "ToNumber e (Bool b) = Inr (Fin (if b then 1 else 0))"
| "ToNumber e (Num n) = Inr n"
| "ToNumber e (Str s) = Inr (StringToNumber e s)"
| "ToNumber e (Arr xs) =
     (case ToString e (Arr xs) of Inl err \<Rightarrow> Inl err | Inr s \<Rightarrow> Inr (StringToNumber e s))"
| "ToNumber e (Obj fs) =
     (case ToString e (Obj fs) of Inl err \<Rightarrow> Inl err | Inr s \<Rightarrow> Inr (StringToNumber e s))"

text \<open>
  \<^verbatim>\<open>x < r\<close> and \<^verbatim>\<open>x > r\<close> for a numeric literal \<^verbatim>\<open>r\<close>: they throw when the conversion of
  \<^verbatim>\<open>x\<close> throws, and are false when \<^verbatim>\<open>x\<close> is NaN.
\<close>

definition js_lt :: "env \<Rightarrow> jsval \<Rightarrow> rat \<Rightarrow> exn + bool" where
  "js_lt e v r =
     (case ToNumber e v of
        Inl err \<Rightarrow> Inl err
      | Inr (Fin q) \<Rightarrow> Inr (q < r)
      | Inr NegInf \<Rightarrow> Inr True
      | Inr PosInf \<Rightarrow> Inr False
      | Inr NaN \<Rightarrow> Inr False)"

definition js_gt :: "env \<Rightarrow> jsval \<Rightarrow> rat \<Rightarrow> exn + bool" where
  "js_gt e v r =
     (case ToNumber e v of
        Inl err \<Rightarrow> Inl err
      | Inr (Fin q) \<Rightarrow> Inr (r < q)
      | Inr PosInf \<Rightarrow> Inr True
      | Inr NegInf \<Rightarrow> Inr False
      | Inr NaN \<Rightarrow> Inr False)"

text \<open>\<^verbatim>\<open>s.split(' ')\<close>, for any separator character.\<close>

fun split_on :: "char \<Rightarrow> string \<Rightarrow> string list" where
  "split_on c [] = [[]]"
| "split_on c (x # xs) =
     (if x = c then [] # split_on c xs
      else (case split_on c xs of [] \<Rightarrow> [[x]] | w # ws \<Rightarrow> (x # w) # ws))"

text \<open>\<^verbatim>\<open>a[i]\<close>: \<^verbatim>\<open>undefined\<close> past the end.\<close>

fun index :: "'a list \<Rightarrow> nat \<Rightarrow> 'a option" where
  "index [] i = None"
| "index (x # xs) 0 = Some x"
| "index (x # xs) (Suc i) = index xs i"

text \<open>
  The decimal digits of a natural number: what \<^verbatim>\<open>`${Date.now()}`\<close> prints (a count of
  milliseconds is a non-negative integer far below \<^verbatim>\<open>1e21\<close>, where JavaScript switches
  to exponent notation).
\<close>

definition digit :: "nat \<Rightarrow> char" where
  "digit d = ''0123456789'' ! d"

function decimal :: "nat \<Rightarrow> string" where
  "decimal n = (if n < 10 then [digit n] else decimal (n div 10) @ [digit (n mod 10)])"
  by pat_completeness auto
termination
  by (relation "measure id") auto

declare decimal.simps [simp del]

section \<open>The key-value store\<close>

text \<open>
  The handlers import \<^verbatim>\<open>./kv_store.tsx\<close>, which is not among the sources. Its three
  operations are modelled from the spec (section 4.2): a store is a list of key/value
  pairs holding each key once.
\<close>

type_synonym kv_store = "(string \<times> jsval) list"

text \<open>
  Modelled from the spec: \<^verbatim>\<open>kv.set\<close> of the missing \<^verbatim>\<open>kv_store.tsx\<close>.
  "\<^verbatim>\<open>set(key, value) -> success | failure\<close>: idempotent overwrite; no optimistic-concurrency
  check, no versioning. Last writer wins." A backend failure is a thrown storage error.
\<close>

definition kv_set :: "env \<Rightarrow> string \<Rightarrow> jsval \<Rightarrow> kv_store \<Rightarrow> exn + kv_store" where
  "kv_set e k v s =
     (case kv_fault e (KvSet k v) of
        Some x \<Rightarrow> Inl x
      | None \<Rightarrow> Inr (AList.update k v s))"

text \<open>
  Modelled from the spec: \<^verbatim>\<open>kv.get\<close> of the missing \<^verbatim>\<open>kv_store.tsx\<close>.
  "\<^verbatim>\<open>get(key) -> value | absent\<close>: returns the stored value or an explicit absent marker
  (never conflated with a stored null)." The absent marker is \<^const>\<open>Undefined\<close>.
\<close>

definition kv_get :: "env \<Rightarrow> string \<Rightarrow> kv_store \<Rightarrow> exn + jsval" where
  "kv_get e k s =
     (case kv_fault e (KvGet k) of
        Some x \<Rightarrow> Inl x
      | None \<Rightarrow> Inr (case map_of s k of None \<Rightarrow> Undefined | Some v \<Rightarrow> v))"

text \<open>
  Modelled from the spec: \<^verbatim>\<open>kv.getByPrefix\<close> of the missing \<^verbatim>\<open>kv_store.tsx\<close>.
  "\<^verbatim>\<open>scan(prefix) -> sequence of value\<close>: returns all records whose key starts with
  prefix; ordering across records is unspecified; empty sequence if no matches, never an
  error." The model lists them in the store's order; the theorems compare multisets.
\<close>

definition kv_getByPrefix :: "env \<Rightarrow> string \<Rightarrow> kv_store \<Rightarrow> exn + jsval list" where
  "kv_getByPrefix e p s =
     (case kv_fault e (KvGetByPrefix p) of
        Some x \<Rightarrow> Inl x
      | None \<Rightarrow> Inr (map snd (filter (\<lambda>kv. prefix p (fst kv)) s)))"

section \<open>Requests and responses\<close>

text \<open>
  A request: the \<^verbatim>\<open>Authorization\<close> header (\<^verbatim>\<open>c.req.header('Authorization')\<close>), what
  \<^verbatim>\<open>await c.req.json()\<close> gives (it throws on a body that is not JSON) and the path
  parameter \<^verbatim>\<open>c.req.param('driverId')\<close>.
\<close>

record request =
  authorization :: "string option"
  json_body :: "exn + jsval"
  driverId :: string

text \<open>A response: the object given to \<^verbatim>\<open>c.json\<close> and the HTTP status.\<close>

record response =
  payload :: jsval
  status :: nat

text \<open>\<^verbatim>\<open>c.json(obj, status)\<close>; the status is 200 when the source gives none.\<close>

definition c_json :: "jsval \<Rightarrow> nat \<Rightarrow> response" where
  "c_json obj code = \<lparr>payload = obj, status = code\<rparr>"

text \<open>
  Every handler's \<^verbatim>\<open>catch (err: any)\<close>:
  \<^verbatim>\<open>return c.json({ error: err.message || "Internal server error" }, 500)\<close>.
\<close>

fun internal_error :: "exn \<Rightarrow> response" where
  "internal_error (Exn m) =
     c_json (Obj [(''error'', Str (if m = [] then ''Internal server error'' else m))]) 500"

text \<open>\<^verbatim>\<open>const { ... } = await c.req.json()\<close>\<close>

definition req_fields :: "env \<Rightarrow> request \<Rightarrow> exn + (string \<Rightarrow> jsval)" where
  "req_fields e req = (case json_body req of Inl x \<Rightarrow> Inl x | Inr b \<Rightarrow> destructure e b)"

section \<open>Sign up\<close>

text \<open>\<^verbatim>\<open>u.email === email\<close>, for \<^verbatim>\<open>u.email\<close> a string or \<^verbatim>\<open>undefined\<close>.\<close>

fun strict_eq :: "string option \<Rightarrow> jsval \<Rightarrow> bool" where
  "strict_eq None v = (v = Undefined)"
| "strict_eq (Some m) v = (v = Str m)"

text \<open>
  \<^verbatim>\<open>app.post("/make-server-8828d0dd/auth/signup", ...)\<close>, lines 38-101. The handler does
  not touch the store; it returns its response and the calls it made. After a successful
  \<^verbatim>\<open>createUser\<close>, line 82 logs \<^verbatim>\<open>`User created successfully: ${email} (${role})`\<close>: the
  two conversions to a string are made, and one that throws sends the handler to its
  \<^verbatim>\<open>catch\<close>. The calls \<^verbatim>\<open>console.error("Signup error:", error)\<close> of lines 74 and 98 convert
  nothing and are left out.
\<close>

definition signup :: "env \<Rightarrow> request \<Rightarrow> response \<times> call list" where
  "signup e req =
     (case req_fields e req of
        Inl x \<Rightarrow> (internal_error x, [])
      | Inr f \<Rightarrow>
          let email = f ''email''; password = f ''password''; name = f ''name'';
              role = f ''role''; roll_number = f ''roll_number'';
              phone_number = f ''phone_number''; emergency_phone = f ''emergency_phone''
          in
          if \<not> truthy email \<or> \<not> truthy password \<or> \<not> truthy name \<or> \<not> truthy role then
            (c_json (Obj [(''error'', Str ''Email, password, name, and role are required'')]) 400, [])
          else
            (case js_lt e (length_prop password) 6 of
               Inl x \<Rightarrow> (internal_error x, [])
             | Inr True \<Rightarrow>
                 (c_json (Obj [(''error'', Str ''Password must be at least 6 characters long'')]) 400,
                  [])
             | Inr False \<Rightarrow>
                 (case listUsers e of
                    Inl x \<Rightarrow> (internal_error x, [ListUsers])
                  | Inr existingUsers \<Rightarrow>
                      if list_ex (\<lambda>u. strict_eq (user_email u) email) existingUsers then
                        (c_json (Obj [(''error'', Str ''An account with this email already exists'')]) 400,
                         [ListUsers])
                      else
                        let args = Obj
                              [(''email'', email),
                               (''password'', password),
                               (''email_confirm'', Bool True),
                               (''user_metadata'', Obj
                                  [(''name'', name),
                                   (''role'', role),
                                   (''roll_number'', js_or roll_number Null),
                                   (''phone_number'', js_or phone_number Null),
                                   (''emergency_phone'', js_or emergency_phone Null)])]
                        in
                        (case createUser e args of
                           Inl x \<Rightarrow> (internal_error x, [ListUsers, CreateUser args])
                         | Inr (CreateError m) \<Rightarrow>
                             (c_json (Obj [(''error'',
                                 Str (if m = [] then ''Failed to create account'' else m))]) 400,
                              [ListUsers, CreateUser args])
                         | Inr CreateNoUser \<Rightarrow>
                             (c_json (Obj [(''error'', Str ''Failed to create user'')]) 500,
                              [ListUsers, CreateUser args])
                         | Inr (Created u) \<Rightarrow>
                             (case ToString e email of
                                Inl x \<Rightarrow> (internal_error x, [ListUsers, CreateUser args])
                              | Inr email_text \<Rightarrow>
                                  (case ToString e role of
                                     Inl x \<Rightarrow> (internal_error x, [ListUsers, CreateUser args])
                                   | Inr role_text \<Rightarrow>
                                       (c_json (Obj
                                          [(''success'', Bool True),
                                           (''message'', Str ''Account created successfully''),
                                           (''user'', Obj
                                              [(''id'', Str (user_id u)),
                                               (''email'',
                                                (case user_email u of
                                                   None \<Rightarrow> Undefined
                                                 | Some m \<Rightarrow> Str m)),
                                               (''name'', name),
                                               (''role'', role),
                                               (''roll_number'', roll_number),
                                               (''phone_number'', phone_number),
                                               (''emergency_phone'', emergency_phone)])]) 200,
                                        [ListUsers, CreateUser args])))))))"

section \<open>Verifying the caller\<close>

text \<open>What \<^verbatim>\<open>verifyAuth\<close> returns for a verified caller: \<^verbatim>\<open>{ userId, email }\<close>.\<close>

record identity =
  userId :: string
  email :: string

text \<open>
  \<^verbatim>\<open>verifyAuth\<close>, lines 107-124. \<^const>\<open>None\<close> is the source's \<^verbatim>\<open>null\<close>; the second
  component lists the provider calls made.
\<close>

definition verifyAuth :: "env \<Rightarrow> string option \<Rightarrow> (exn + identity option) \<times> call list" where
  "verifyAuth e authHeader =
     (case authHeader of
        None \<Rightarrow> (Inr None, [])
      | Some h \<Rightarrow>
          if h = [] \<or> \<not> prefix ''Bearer '' h then (Inr None, [])
          else
            let token = index (split_on CHR '' '' h) 1 in
            (case getUser e token of
               Inl x \<Rightarrow> (Inl x, [GetUser token])
             | Inr None \<Rightarrow> (Inr None, [GetUser token])
             | Inr (Some u) \<Rightarrow>
                 (Inr (Some \<lparr>userId = user_id u,
                             email = (case user_email u of None \<Rightarrow> [] | Some m \<Rightarrow> m)\<rparr>),
                  [GetUser token])))"

section \<open>Protected routes\<close>

text \<open>The 401 answer of a protected handler, with the handler's own message.\<close>

definition unauthorized :: "string \<Rightarrow> response" where
  "unauthorized msg = c_json (Obj [(''error'', Str msg)]) 401"

text \<open>
  \<^verbatim>\<open>app.post("/make-server-8828d0dd/user/university", ...)\<close>, lines 133-159. A protected
  handler returns its response, the store after it and the calls it made, in order.
\<close>

definition save_university :: "env \<Rightarrow> request \<Rightarrow> kv_store \<Rightarrow> response \<times> kv_store \<times> call list" where
  "save_university e req s =
     (case verifyAuth e (authorization req) of
        (Inl x, cs) \<Rightarrow> (internal_error x, s, cs)
      | (Inr None, cs) \<Rightarrow>
          (unauthorized ''Unauthorized - Please login with your credentials'', s, cs)
      | (Inr (Some user), cs) \<Rightarrow>
          (case req_fields e req of
             Inl x \<Rightarrow> (internal_error x, s, cs)
           | Inr f \<Rightarrow>
               let university_id = f ''university_id'' in
               if \<not> truthy university_id then
                 (c_json (Obj [(''error'', Str ''University ID is required'')]) 400, s, cs)
               else
                 let key = ''user:'' @ userId user @ '':university'' in
                 (case kv_set e key university_id s of
                    Inl x \<Rightarrow> (internal_error x, s, cs @ [KvSet key university_id])
                  | Inr s' \<Rightarrow>
                      (c_json (Obj
                         [(''success'', Bool True),
                          (''message'', Str ''University saved successfully'')]) 200,
                       s', cs @ [KvSet key university_id]))))"

text \<open>\<^verbatim>\<open>app.post("/make-server-8828d0dd/user/location", ...)\<close>, lines 164-195.\<close>

definition save_location :: "env \<Rightarrow> request \<Rightarrow> kv_store \<Rightarrow> response \<times> kv_store \<times> call list" where
  "save_location e req s =
     (case verifyAuth e (authorization req) of
        (Inl x, cs) \<Rightarrow> (internal_error x, s, cs)
      | (Inr None, cs) \<Rightarrow>
          (unauthorized ''Unauthorized - Please login with your credentials'', s, cs)
      | (Inr (Some user), cs) \<Rightarrow>
          (case req_fields e req of
             Inl x \<Rightarrow> (internal_error x, s, cs)
           | Inr f \<Rightarrow>
               let latitude = f ''latitude''; longitude = f ''longitude'';
                   address = f ''address''
               in
               if \<not> truthy latitude \<or> \<not> truthy longitude then
                 (c_json (Obj [(''error'', Str ''Latitude and longitude are required'')]) 400, s, cs)
               else
                 let key = ''user:'' @ userId user @ '':location'';
                     val = Obj
                       [(''latitude'', latitude),
                        (''longitude'', longitude),
                        (''address'', js_or address Null),
                        (''updated_at'', Str (toISOString e))]
                 in
                 (case kv_set e key val s of
                    Inl x \<Rightarrow> (internal_error x, s, cs @ [KvSet key val])
                  | Inr s' \<Rightarrow>
                      (c_json (Obj
                         [(''success'', Bool True),
                          (''message'', Str ''Location saved successfully'')]) 200,
                       s', cs @ [KvSet key val]))))"

text \<open>\<^verbatim>\<open>x?.name\<close> on the metadata object.\<close>

fun optional_field :: "jsval \<Rightarrow> string \<Rightarrow> jsval" where
  "optional_field (Obj fs) k = field fs k"
| "optional_field v k = Undefined"

text \<open>\<^verbatim>\<open>app.get("/make-server-8828d0dd/user/profile", ...)\<close>, lines 200-230.\<close>

definition get_profile :: "env \<Rightarrow> request \<Rightarrow> kv_store \<Rightarrow> response \<times> kv_store \<times> call list" where
  "get_profile e req s =
     (case verifyAuth e (authorization req) of
        (Inl x, cs) \<Rightarrow> (internal_error x, s, cs)
      | (Inr None, cs) \<Rightarrow>
          (unauthorized ''Unauthorized - Please login with your credentials'', s, cs)
      | (Inr (Some user), cs) \<Rightarrow>
          let ukey = ''user:'' @ userId user @ '':university'';
              lkey = ''user:'' @ userId user @ '':location''
          in
          (case getUserById e (userId user) of
             Inl x \<Rightarrow> (internal_error x, s, cs @ [GetUserById (userId user)])
           | Inr metadata \<Rightarrow>
               (case kv_get e ukey s of
                  Inl x \<Rightarrow> (internal_error x, s, cs @ [GetUserById (userId user), KvGet ukey])
                | Inr university \<Rightarrow>
                    (case kv_get e lkey s of
                       Inl x \<Rightarrow>
                         (internal_error x, s,
                          cs @ [GetUserById (userId user), KvGet ukey, KvGet lkey])
                     | Inr location \<Rightarrow>
                         (c_json (Obj
                            [(''user'', Obj
                                [(''id'', Str (userId user)),
                                 (''email'', Str (email user)),
                                 (''name'', optional_field metadata ''name''),
                                 (''role'', optional_field metadata ''role'')]),
                             (''university'', university),
                             (''location'', location)]) 200,
                          s, cs @ [GetUserById (userId user), KvGet ukey, KvGet lkey])))))"

text \<open>\<^verbatim>\<open>app.post("/make-server-8828d0dd/user/pickup-route", ...)\<close>, lines 235-266.\<close>

definition save_pickup_route :: "env \<Rightarrow> request \<Rightarrow> kv_store \<Rightarrow> response \<times> kv_store \<times> call list" where
  "save_pickup_route e req s =
     (case verifyAuth e (authorization req) of
        (Inl x, cs) \<Rightarrow> (internal_error x, s, cs)
      | (Inr None, cs) \<Rightarrow>
          (unauthorized ''Unauthorized - Please login with your credentials'', s, cs)
      | (Inr (Some user), cs) \<Rightarrow>
          (case req_fields e req of
             Inl x \<Rightarrow> (internal_error x, s, cs)
           | Inr f \<Rightarrow>
               let bus_id = f ''bus_id''; pickup_latitude = f ''pickup_latitude'';
                   pickup_longitude = f ''pickup_longitude''
               in
               if \<not> truthy bus_id \<or> \<not> truthy pickup_latitude \<or> \<not> truthy pickup_longitude then
                 (c_json (Obj [(''error'', Str ''Bus ID and pickup coordinates are required'')]) 400,
                  s, cs)
               else
                 let key = ''user:'' @ userId user @ '':pickup-route'';
                     val = Obj
                       [(''bus_id'', bus_id),
                        (''pickup_latitude'', pickup_latitude),
                        (''pickup_longitude'', pickup_longitude),
                        (''created_at'', Str (toISOString e))]
                 in
                 (case kv_set e key val s of
                    Inl x \<Rightarrow> (internal_error x, s, cs @ [KvSet key val])
                  | Inr s' \<Rightarrow>
                      (c_json (Obj
                         [(''success'', Bool True),
                          (''message'', Str ''Pickup route saved successfully'')]) 200,
                       s', cs @ [KvSet key val]))))"

text \<open>\<^verbatim>\<open>app.get("/make-server-8828d0dd/user/pickup-route", ...)\<close>, lines 271-289.\<close>

definition get_pickup_route :: "env \<Rightarrow> request \<Rightarrow> kv_store \<Rightarrow> response \<times> kv_store \<times> call list" where
  "get_pickup_route e req s =
     (case verifyAuth e (authorization req) of
        (Inl x, cs) \<Rightarrow> (internal_error x, s, cs)
      | (Inr None, cs) \<Rightarrow>
          (unauthorized ''Unauthorized - Please login with your credentials'', s, cs)
      | (Inr (Some user), cs) \<Rightarrow>
          let key = ''user:'' @ userId user @ '':pickup-route'' in
          (case kv_get e key s of
             Inl x \<Rightarrow> (internal_error x, s, cs @ [KvGet key])
           | Inr pickupRoute \<Rightarrow>
               (c_json (Obj [(''pickup_route'', pickupRoute)]) 200, s, cs @ [KvGet key])))"

section \<open>Driver feedback\<close>

text \<open>
  The key of a feedback record, line 313:
  \<^verbatim>\<open>`feedback:${driver_id}:${Date.now()}:${user.userId}`\<close>, for the driver id already
  converted to a string.
\<close>

definition feedbackId :: "string \<Rightarrow> nat \<Rightarrow> string \<Rightarrow> string" where
  "feedbackId driver now uid = ''feedback:'' @ driver @ '':'' @ decimal now @ '':'' @ uid"

text \<open>
  \<^verbatim>\<open>app.post("/make-server-8828d0dd/feedback", ...)\<close>, lines 294-332. The test
  \<^verbatim>\<open>rating < 1 || rating > 5\<close> converts the rating to a number, once for each comparison
  that is reached, and the key of line 313 converts the driver id to a string: a
  conversion that throws sends the handler to its \<^verbatim>\<open>catch\<close>, before any \<^verbatim>\<open>kv.set\<close>.
\<close>

definition submit_feedback :: "env \<Rightarrow> request \<Rightarrow> kv_store \<Rightarrow> response \<times> kv_store \<times> call list" where
  "submit_feedback e req s =
     (case verifyAuth e (authorization req) of
        (Inl x, cs) \<Rightarrow> (internal_error x, s, cs)
      | (Inr None, cs) \<Rightarrow>
          (unauthorized ''Unauthorized - Please login to submit feedback'', s, cs)
      | (Inr (Some user), cs) \<Rightarrow>
          (case req_fields e req of
             Inl x \<Rightarrow> (internal_error x, s, cs)
           | Inr f \<Rightarrow>
               let driver_id = f ''driver_id''; rating = f ''rating''; comment = f ''comment'';
                   out_of_range =
                     c_json (Obj [(''error'', Str ''Rating must be between 1 and 5'')]) 400
               in
               if \<not> truthy driver_id \<or> \<not> truthy rating then
                 (c_json (Obj [(''error'', Str ''Driver ID and rating are required'')]) 400, s, cs)
               else
                 (case js_lt e rating 1 of
                    Inl x \<Rightarrow> (internal_error x, s, cs)
                  | Inr True \<Rightarrow> (out_of_range, s, cs)
                  | Inr False \<Rightarrow>
                      (case js_gt e rating 5 of
                         Inl x \<Rightarrow> (internal_error x, s, cs)
                       | Inr True \<Rightarrow> (out_of_range, s, cs)
                       | Inr False \<Rightarrow>
                           (case ToString e driver_id of
                              Inl x \<Rightarrow> (internal_error x, s, cs)
                            | Inr driver_text \<Rightarrow>
                                let key = feedbackId driver_text (Date_now e) (userId user);
                                    val = Obj
                                      [(''driver_id'', driver_id),
                                       (''user_id'', Str (userId user)),
                                       (''user_email'', Str (email user)),
                                       (''rating'', rating),
                                       (''comment'', js_or comment Null),
                                       (''created_at'', Str (toISOString e))]
                                in
                                (case kv_set e key val s of
                                   Inl x \<Rightarrow> (internal_error x, s, cs @ [KvSet key val])
                                 | Inr s' \<Rightarrow>
                                     (c_json (Obj
                                        [(''success'', Bool True),
                                         (''message'', Str ''Feedback submitted successfully'')]) 200,
                                      s', cs @ [KvSet key val])))))))"

text \<open>
  \<^verbatim>\<open>app.get("/make-server-8828d0dd/drivers/:driverId/feedback", ...)\<close>, lines 341-355: a
  public route, which never looks at the \<^verbatim>\<open>Authorization\<close> header. The scan gives an
  array, which is truthy, so \<^verbatim>\<open>allFeedback || []\<close> is the array itself.
\<close>

definition list_feedback :: "env \<Rightarrow> request \<Rightarrow> kv_store \<Rightarrow> response \<times> kv_store \<times> call list" where
  "list_feedback e req s =
     (let pre = ''feedback:'' @ driverId req @ '':'' in
      case kv_getByPrefix e pre s of
        Inl x \<Rightarrow> (internal_error x, s, [KvGetByPrefix pre])
      | Inr allFeedback \<Rightarrow>
          (c_json (Obj [(''feedback'', Arr allFeedback)]) 200, s, [KvGetByPrefix pre]))"

section \<open>An example environment\<close>

text \<open>
  A provider that knows one token, \<^verbatim>\<open>tok1\<close>, of the user \<^verbatim>\<open>u1\<close>; that lists one
  registered user, \<^verbatim>\<open>a@x.com\<close>; and that creates whatever user it is asked to create.
  The clock shows 42 milliseconds, and the store never fails. The two conversions of the
  runtime are placeholders: no instance below converts a string to a number or a number
  to a string. The theorems below are instantiated at this environment.
\<close>

definition example_env :: env where
  "example_env =
     \<lparr>StringToNumber = (\<lambda>s. NaN),
      NumberToString = (\<lambda>n. ''7''),
      listUsers = Inr [\<lparr>user_id = ''u0'', user_email = Some ''a@x.com''\<rparr>],
      createUser = (\<lambda>args. Inr (Created \<lparr>user_id = ''u9'', user_email = Some ''A@x.com''\<rparr>)),
      getUser = (\<lambda>t. if t = Some ''tok1''
                     then Inr (Some \<lparr>user_id = ''u1'', user_email = Some ''u1@x.com''\<rparr>)
                     else Inr None),
      getUserById = (\<lambda>i. Inr (Obj [(''name'', Str ''Ann''), (''role'', Str ''student'')])),
      Date_now = 42,
      toISOString = ''2024-01-01T00:00:00.000Z'',
      kv_fault = (\<lambda>c. None),
      TypeError_destructure = ''Cannot destructure property of null'',
      TypeError_primitive = ''Cannot convert object to primitive value''\<rparr>"

text \<open>A store with one record, and a request that carries no \<^verbatim>\<open>Authorization\<close> header.\<close>

definition example_store :: kv_store where
  "example_store = [(''user:u1:university'', Str ''iitd'')]"

definition anonymous_request :: request where
  "anonymous_request =
     \<lparr>authorization = None,
      json_body = Inr (Obj
        [(''university_id'', Str ''iitd''),
         (''latitude'', Num (Fin 1)),
         (''longitude'', Num (Fin 2)),
         (''bus_id'', Str ''b1''),
         (''pickup_latitude'', Num (Fin 1)),
         (''pickup_longitude'', Num (Fin 2)),
         (''driver_id'', Str ''d1''),
         (''rating'', Num (Fin 5))]),
      driverId = []\<rparr>"

text \<open>Requests of the caller \<^verbatim>\<open>u1\<close>, and sign-up requests.\<close>

definition short_password_request :: request where
  "short_password_request =
     \<lparr>authorization = None,
      json_body = Inr (Obj
        [(''email'', Str ''new@x.com''),
         (''password'', Str ''12345''),
         (''name'', Str ''Ann''),
         (''role'', Str ''student'')]),
      driverId = []\<rparr>"

definition signup_request :: "string \<Rightarrow> request" where
  "signup_request m =
     \<lparr>authorization = None,
      json_body = Inr (Obj
        [(''email'', Str m),
         (''password'', Str ''secret1''),
         (''name'', Str ''Ann''),
         (''role'', Str ''student'')]),
      driverId = []\<rparr>"

definition equator_fields :: "(string \<times> jsval) list" where
  "equator_fields =
     [(''latitude'', Num (Fin 0)),
      (''longitude'', Num (Fin (1557 / 20))),
      (''address'', Str ''on the equator''),
      (''bus_id'', Str ''b1''),
      (''pickup_latitude'', Num (Fin 0)),
      (''pickup_longitude'', Num (Fin (1557 / 20)))]"

definition equator_request :: request where
  "equator_request =
     \<lparr>authorization = Some ''Bearer tok1'', json_body = Inr (Obj equator_fields), driverId = []\<rparr>"

definition location_request :: "rat \<Rightarrow> rat \<Rightarrow> request" where
  "location_request lat lon =
     \<lparr>authorization = Some ''Bearer tok1'',
      json_body = Inr (Obj [(''latitude'', Num (Fin lat)), (''longitude'', Num (Fin lon))]),
      driverId = []\<rparr>"

definition profile_request :: request where
  "profile_request =
     \<lparr>authorization = Some ''Bearer tok1'',
      json_body = Inl (Exn ''Unexpected end of JSON input''),
      driverId = []\<rparr>"

definition feedback_request :: "jsval \<Rightarrow> jsval \<Rightarrow> request" where
  "feedback_request driver rating =
     \<lparr>authorization = Some ''Bearer tok1'',
      json_body = Inr (Obj [(''driver_id'', driver), (''rating'', rating)]),
      driverId = []\<rparr>"

section \<open>The objects the handlers build\<close>

text \<open>
  The objects that the handlers pass to \<^verbatim>\<open>createUser\<close> and to \<^verbatim>\<open>kv.set\<close>, as functions of
  the destructured body: the argument of \<^verbatim>\<open>createUser\<close> (lines 60-71), the location record
  (lines 180-185) and the feedback record (lines 315-322). The theorems state the
  handlers' calls in these terms.
\<close>

definition createUser_args :: "(string \<Rightarrow> jsval) \<Rightarrow> jsval" where
  "createUser_args f =
     Obj [(''email'', f ''email''),
          (''password'', f ''password''),
          (''email_confirm'', Bool True),
          (''user_metadata'', Obj
             [(''name'', f ''name''),
              (''role'', f ''role''),
              (''roll_number'', js_or (f ''roll_number'') Null),
              (''phone_number'', js_or (f ''phone_number'') Null),
              (''emergency_phone'', js_or (f ''emergency_phone'') Null)])]"

definition location_record :: "env \<Rightarrow> (string \<Rightarrow> jsval) \<Rightarrow> jsval" where
  "location_record e f =
     Obj [(''latitude'', f ''latitude''),
          (''longitude'', f ''longitude''),
          (''address'', js_or (f ''address'') Null),
          (''updated_at'', Str (toISOString e))]"

definition feedback_record :: "env \<Rightarrow> identity \<Rightarrow> (string \<Rightarrow> jsval) \<Rightarrow> jsval" where
  "feedback_record e user f =
     Obj [(''driver_id'', f ''driver_id''),
          (''user_id'', Str (userId user)),
          (''user_email'', Str (email user)),
          (''rating'', f ''rating''),
          (''comment'', js_or (f ''comment'') Null),
          (''created_at'', Str (toISOString e))]"

section \<open>The spec's notions\<close>

text \<open>
  Two notions that the spec uses and the source does not: a rating that is "an integer
  in [1,5]", and two emails that are the same "up to letter case" (of the ASCII letters).
\<close>

definition integer_between_1_and_5 :: "jsval \<Rightarrow> bool" where
  "integer_between_1_and_5 v = (v \<in> set (map (\<lambda>n. Num (Fin (of_nat n))) [1, 2, 3, 4, 5]))"

definition lower_case :: "char \<Rightarrow> char" where
  "lower_case c =
     (case map_of (zip ''ABCDEFGHIJKLMNOPQRSTUVWXYZ'' ''abcdefghijklmnopqrstuvwxyz'') c of
        None \<Rightarrow> c
      | Some l \<Rightarrow> l)"

definition equal_up_to_case :: "string \<Rightarrow> string \<Rightarrow> bool" where
  "equal_up_to_case a b = (map lower_case a = map lower_case b)"

section \<open>Sequences of feedback submissions\<close>

text \<open>
  One accepted submission, as far as the store is concerned: the driver id as the
  template literal prints it, the value of \<^verbatim>\<open>Date.now()\<close>, the author's user id and the
  record written. \<^verbatim>\<open>write_feedback\<close> is the \<^verbatim>\<open>kv.set\<close> of a successful \<^verbatim>\<open>POST /feedback\<close>;
  \<^verbatim>\<open>write_all\<close> performs a list of them in order.
\<close>

record submission =
  sub_driver :: string
  sub_time :: nat
  sub_author :: string
  sub_record :: jsval

definition write_feedback :: "submission \<Rightarrow> kv_store \<Rightarrow> kv_store" where
  "write_feedback w s =
     AList.update (feedbackId (sub_driver w) (sub_time w) (sub_author w)) (sub_record w) s"

definition write_all :: "submission list \<Rightarrow> kv_store \<Rightarrow> kv_store" where
  "write_all ws s = fold write_feedback ws s"

text \<open>
  The submission that a request makes: the one above when the handler answers 200, and
  none otherwise (the handler's answer does not depend on the store it runs on).
\<close>

definition accepted :: "env \<Rightarrow> request \<Rightarrow> submission option" where
  "accepted e req =
     (if status (fst (submit_feedback e req [])) = 200 then
        (case (fst (verifyAuth e (authorization req)), req_fields e req) of
           (Inr (Some user), Inr f) \<Rightarrow>
             (case ToString e (f ''driver_id'') of
                Inr driver_text \<Rightarrow>
                  Some \<lparr>sub_driver = driver_text, sub_time = Date_now e,
                        sub_author = userId user, sub_record = feedback_record e user f\<rparr>
              | Inl x \<Rightarrow> None)
         | _ \<Rightarrow> None)
      else None)"

text \<open>
  A sequence of \<^verbatim>\<open>POST /feedback\<close> requests, each in its own environment, handled one
  after the other: the store after them, and the submissions they made.
\<close>

fun submit_all :: "(env \<times> request) list \<Rightarrow> kv_store \<Rightarrow> kv_store" where
  "submit_all [] s = s"
| "submit_all ((e, req) # rest) s = submit_all rest (fst (snd (submit_feedback e req s)))"

definition accepted_submissions :: "(env \<times> request) list \<Rightarrow> submission list" where
  "accepted_submissions rs = List.map_filter (\<lambda>(e, req). accepted e req) rs"

text \<open>A request for the feedback of one driver, without an \<^verbatim>\<open>Authorization\<close> header.\<close>

definition driver_request :: "string \<Rightarrow> request" where
  "driver_request d = \<lparr>authorization = None, json_body = Inl (Exn []), driverId = d\<rparr>"

text \<open>
  Five submissions of the caller \<^verbatim>\<open>u1\<close> for the drivers \<^verbatim>\<open>d1\<close> and \<^verbatim>\<open>d2\<close>, at the
  times 1 to 5; the third has the rating 9.
\<close>

definition example_requests :: "(env \<times> request) list" where
  "example_requests =
     [(example_env\<lparr>Date_now := 1\<rparr>, feedback_request (Str ''d2'') (Num (Fin 2))),
      (example_env\<lparr>Date_now := 2\<rparr>, feedback_request (Str ''d1'') (Num (Fin 5))),
      (example_env\<lparr>Date_now := 3\<rparr>, feedback_request (Str ''d1'') (Num (Fin 9))),
      (example_env\<lparr>Date_now := 4\<rparr>, feedback_request (Str ''d2'') (Num (Fin 3))),
      (example_env\<lparr>Date_now := 5\<rparr>, feedback_request (Str ''d1'') (Num (Fin 4)))]"

section \<open>Helper lemmas\<close>

lemma verifyAuth_calls: "KvSet k v \<notin> set (snd (verifyAuth e h))"
  by (auto simp: verifyAuth_def Let_def split: option.splits sum.splits)

lemma verifyAuth_malformed:
  "h = None \<or> (\<exists>x. h = Some x \<and> \<not> prefix ''Bearer '' x) \<Longrightarrow> verifyAuth e h = (Inr None, [])"
  by (auto simp: verifyAuth_def)

lemma status_internal_error: "status (internal_error x) = 500"
  by (cases x) (simp add: c_json_def)

lemma field_delete: "field (AList.delete k fs) k' = (if k' = k then Undefined else field fs k')"
  by (simp add: field_def AList.delete_conv)

lemma list_ex_strict_eq:
  "list_ex (\<lambda>u. strict_eq (user_email u) (Str m)) us \<longleftrightarrow> (\<exists>u \<in> set us. user_email u = Some m)"
proof -
  have "strict_eq x (Str m) \<longleftrightarrow> x = Some m" for x
    by (cases x) auto
  then show ?thesis by (auto simp: list_ex_iff)
qed

text \<open>What a successful save of a location leaves in the store.\<close>

lemma save_location_ok:
  assumes "save_location e req s = (r, s', cs)" "status r = 200"
    "fst (verifyAuth e (authorization req)) = Inr (Some user)"
    "req_fields e req = Inr f"
  shows "s' = AList.update (''user:'' @ userId user @ '':location'') (location_record e f) s"
proof -
  obtain c where va: "verifyAuth e (authorization req) = (Inr (Some user), c)"
    using assms(3) by (cases "verifyAuth e (authorization req)") auto
  show ?thesis
    using assms(1,2)
    by (auto simp: save_location_def va assms(4) Let_def kv_set_def location_record_def c_json_def
        status_internal_error split: if_splits option.splits)
qed

text \<open>The \<^verbatim>\<open>location\<close> of a successful profile answer is what the store holds.\<close>

lemma get_profile_ok:
  assumes "get_profile e req s = (r, s', cs)" "status r = 200"
    "fst (verifyAuth e (authorization req)) = Inr (Some user)"
  shows "optional_field (payload r) ''location'' =
      (case map_of s (''user:'' @ userId user @ '':location'') of None \<Rightarrow> Undefined | Some v \<Rightarrow> v)"
proof -
  obtain c where va: "verifyAuth e (authorization req) = (Inr (Some user), c)"
    using assms(3) by (cases "verifyAuth e (authorization req)") auto
  show ?thesis
    using assms(1,2)
    by (auto simp: get_profile_def va Let_def kv_get_def c_json_def field_def
        status_internal_error split: if_splits option.splits sum.splits)
qed

text \<open>The decimal digits of a number hold no colon and determine the number.\<close>

lemma digit_cases:
  assumes "d < 10"
  shows "d = 0 \<or> d = 1 \<or> d = 2 \<or> d = 3 \<or> d = 4 \<or> d = 5 \<or> d = 6 \<or> d = 7 \<or> d = 8 \<or> d = (9::nat)"
  using assms by arith

lemma digit_not_colon: "d < 10 \<Longrightarrow> CHR '':'' \<noteq> digit d"
  using digit_cases [of d] by (auto simp: digit_def)

lemma first_separator:
  assumes "c \<notin> set a" "c \<notin> set b" "a @ c # r = b @ c # r'"
  shows "a = b \<and> r = r'"
  using assms
proof (induction a arbitrary: b)
  case Nil
  then show ?case by (cases b) auto
next
  case (Cons x a)
  then show ?case by (cases b) auto
qed

lemma digit_inj: "a < 10 \<Longrightarrow> b < 10 \<Longrightarrow> digit a = digit b \<Longrightarrow> a = b"
  using digit_cases [of a] digit_cases [of b] by (auto simp: digit_def)

lemma decimal_not_empty: "decimal n \<noteq> []"
  by (subst decimal.simps) simp

lemma colon_not_in_decimal: "CHR '':'' \<notin> set (decimal n)"
proof (induction n rule: decimal.induct)
  case (1 n)
  show ?case
  proof (cases "n < 10")
    case True
    then show ?thesis by (subst decimal.simps) (simp add: digit_not_colon)
  next
    case False
    with 1 show ?thesis by (subst decimal.simps) (simp add: digit_not_colon)
  qed
qed

lemma decimal_inj: "decimal a = decimal b \<Longrightarrow> a = b"
proof (induction a arbitrary: b rule: decimal.induct)
  case (1 n)
  show ?case
  proof (cases "n < 10")
    case True
    note small = this
    show ?thesis
    proof (cases "b < 10")
      case True
      with small 1(2) show ?thesis
        by (simp add: decimal.simps [of n] decimal.simps [of b] digit_inj)
    next
      case False
      with small 1(2) decimal_not_empty [of "b div 10"] show ?thesis
        by (simp add: decimal.simps [of n] decimal.simps [of b])
    qed
  next
    case False
    note big = this
    show ?thesis
    proof (cases "b < 10")
      case True
      with big 1(2) decimal_not_empty [of "n div 10"] show ?thesis
        by (simp add: decimal.simps [of n] decimal.simps [of b])
    next
      case False
      with big 1(2) have eq: "decimal (n div 10) = decimal (b div 10)" "digit (n mod 10) = digit (b mod 10)"
        by (simp_all add: decimal.simps [of n] decimal.simps [of b])
      have "n div 10 = b div 10" using 1(1) [OF big eq(1)] .
      moreover have "n mod 10 = b mod 10" using eq(2) by (simp add: digit_inj)
      ultimately show ?thesis by (metis div_mult_mod_eq)
    qed
  qed
qed

text \<open>
  A feedback key lies under the prefix of the driver \<^verbatim>\<open>d1\<close> exactly when it was built for
  \<^verbatim>\<open>d1\<close>, provided neither driver id holds a colon; and the key determines the time and
  the author.
\<close>

lemma feedbackId_prefix:
  assumes "CHR '':'' \<notin> set d1" "CHR '':'' \<notin> set d"
  shows "prefix (''feedback:'' @ d1 @ '':'') (feedbackId d t u) \<longleftrightarrow> d = d1"
proof
  assume "prefix (''feedback:'' @ d1 @ '':'') (feedbackId d t u)"
  then have "prefix (d1 @ '':'') (d @ '':'' @ decimal t @ '':'' @ u)"
    by (simp add: feedbackId_def)
  then obtain z where "d @ CHR '':'' # (decimal t @ '':'' @ u) = d1 @ CHR '':'' # z"
    by (auto simp: prefix_def)
  with assms show "d = d1"
    using first_separator [of "CHR '':''" d d1] by simp
next
  assume "d = d1"
  then show "prefix (''feedback:'' @ d1 @ '':'') (feedbackId d t u)"
    by (simp add: feedbackId_def)
qed

lemma feedbackId_inj:
  assumes "feedbackId d t u = feedbackId d t' u'"
  shows "t = t' \<and> u = u'"
proof -
  from assms have "decimal t @ CHR '':'' # u = decimal t' @ CHR '':'' # u'"
    by (simp add: feedbackId_def)
  then have "decimal t = decimal t' \<and> u = u'"
    by (rule first_separator [OF colon_not_in_decimal colon_not_in_decimal])
  then show ?thesis by (auto dest: decimal_inj)
qed

text \<open>What a successful submission leaves in the store.\<close>

lemma submit_feedback_ok:
  assumes "submit_feedback e req s = (r, s', cs)" "status r = 200"
    "fst (verifyAuth e (authorization req)) = Inr (Some user)"
    "req_fields e req = Inr f"
  shows "\<exists>driver_text. ToString e (f ''driver_id'') = Inr driver_text
     \<and> s' = write_feedback
          \<lparr>sub_driver = driver_text, sub_time = Date_now e,
           sub_author = userId user, sub_record = feedback_record e user f\<rparr> s"
proof -
  obtain c where va: "verifyAuth e (authorization req) = (Inr (Some user), c)"
    using assms(3) by (cases "verifyAuth e (authorization req)") auto
  show ?thesis
    using assms(1,2)
    by (auto simp: submit_feedback_def va assms(4) Let_def kv_set_def feedback_record_def c_json_def
        write_feedback_def status_internal_error
        split: if_splits option.splits sum.splits bool.splits)
qed

text \<open>Writing under a key outside a prefix, and under a key the store does not hold.\<close>

lemma update_other_prefix:
  "\<not> prefix p k \<Longrightarrow>
   filter (\<lambda>kv. prefix p (fst kv)) (AList.update k v s) = filter (\<lambda>kv. prefix p (fst kv)) s"
  by (induction s) auto

lemma update_fresh: "k \<notin> fst ` set s \<Longrightarrow> AList.update k v s = s @ [(k, v)]"
  by (induction s) auto

lemma write_all_snoc: "write_all (ws @ [w]) s = write_feedback w (write_all ws s)"
  by (simp add: write_all_def)

lemma write_all_keys:
  "fst ` set (write_all ws []) =
     (\<lambda>w. feedbackId (sub_driver w) (sub_time w) (sub_author w)) ` set ws"
proof (induction ws rule: rev_induct)
  case Nil
  then show ?case by (simp add: write_all_def)
next
  case (snoc w ws)
  then show ?case
    by (simp add: write_all_snoc write_feedback_def AList.dom_update)
qed

lemma scan_write_all:
  assumes d1: "CHR '':'' \<notin> set D1" and d2: "CHR '':'' \<notin> set D2"
    and drivers: "\<forall>w \<in> set ws. sub_driver w = D1 \<or> sub_driver w = D2"
    and keys: "distinct (map (\<lambda>w. (sub_time w, sub_author w)) (filter (\<lambda>w. sub_driver w = D1) ws))"
  shows "mset (map snd (filter (\<lambda>kv. prefix (''feedback:'' @ D1 @ '':'') (fst kv)) (write_all ws [])))
       = mset (map sub_record (filter (\<lambda>w. sub_driver w = D1) ws))"
  using drivers keys
proof (induction ws rule: rev_induct)
  case Nil
  then show ?case by (simp add: write_all_def)
next
  case (snoc w ws)
  let ?pre = "''feedback:'' @ D1 @ '':''"
  let ?P = "\<lambda>kv::string \<times> jsval. prefix ?pre (fst kv)"
  let ?own = "\<lambda>w. sub_driver w = D1"
  let ?k = "feedbackId (sub_driver w) (sub_time w) (sub_author w)"
  let ?S = "write_all ws []"
  have ih: "mset (map snd (filter ?P ?S)) = mset (map sub_record (filter ?own ws))"
    using snoc by (auto split: if_splits)
  have colon: "CHR '':'' \<notin> set (sub_driver x)" if "x \<in> set (ws @ [w])" for x
    using that snoc.prems(1) d1 d2 by auto
  have next_store: "write_all (ws @ [w]) [] = AList.update ?k (sub_record w) ?S"
    by (simp add: write_all_snoc write_feedback_def)
  show ?case
  proof (cases "sub_driver w = D1")
    case True
    have fresh: "?k \<notin> fst ` set ?S"
    proof
      assume "?k \<in> fst ` set ?S"
      then obtain x where x: "x \<in> set ws"
        "feedbackId (sub_driver x) (sub_time x) (sub_author x) = ?k"
        by (auto simp: write_all_keys)
      have "prefix ?pre ?k" using True by (simp add: feedbackId_def)
      then have "sub_driver x = D1"
        using feedbackId_prefix [OF d1, of "sub_driver x" "sub_time x" "sub_author x"] colon [of x] x
        by simp
      then have "(sub_time x, sub_author x) = (sub_time w, sub_author w)"
        using x(2) True feedbackId_inj [of D1 "sub_time x" "sub_author x" "sub_time w" "sub_author w"]
        by simp
      moreover have "(sub_time x, sub_author x) \<in>
          (\<lambda>w. (sub_time w, sub_author w)) ` {y \<in> set ws. sub_driver y = D1}"
        using x(1) \<open>sub_driver x = D1\<close> by blast
      moreover have "(sub_time w, sub_author w) \<notin>
          (\<lambda>w. (sub_time w, sub_author w)) ` {y \<in> set ws. sub_driver y = D1}"
        using snoc.prems(2) True by simp
      ultimately show False by simp
    qed
    have hit: "?P (?k, sub_record w)" using True by (simp add: feedbackId_def)
    have "filter ?P (write_all (ws @ [w]) []) = filter ?P (?S @ [(?k, sub_record w)])"
      by (simp only: next_store update_fresh [OF fresh])
    also have "\<dots> = filter ?P ?S @ [(?k, sub_record w)]"
      using hit by simp
    finally have "mset (map snd (filter ?P (write_all (ws @ [w]) []))) =
        mset (map snd (filter ?P ?S)) + {#sub_record w#}"
      by simp
    also have "\<dots> = mset (map sub_record (filter ?own ws)) + {#sub_record w#}"
      by (simp only: ih)
    also have "\<dots> = mset (map sub_record (filter ?own (ws @ [w])))"
      using True by simp
    finally show ?thesis .
  next
    case False
    then have "\<not> prefix ?pre ?k"
      using feedbackId_prefix [OF d1, of "sub_driver w" "sub_time w" "sub_author w"] colon [of w]
      by simp
    then have "filter ?P (write_all (ws @ [w]) []) = filter ?P ?S"
      unfolding next_store by (rule update_other_prefix)
    then have "mset (map snd (filter ?P (write_all (ws @ [w]) []))) = mset (map snd (filter ?P ?S))"
      by simp
    also have "\<dots> = mset (map sub_record (filter ?own ws))"
      by (simp only: ih)
    also have "\<dots> = mset (map sub_record (filter ?own (ws @ [w])))"
      using False by simp
    finally show ?thesis .
  qed
qed

text \<open>
  The store after a \<^verbatim>\<open>POST /feedback\<close>, and after a sequence of them: the writes of the
  accepted submissions, in order.
\<close>

lemma submit_feedback_store:
  "fst (snd (submit_feedback e req s)) =
     (case accepted e req of None \<Rightarrow> s | Some w \<Rightarrow> write_feedback w s)"
proof -
  obtain r cs where va: "verifyAuth e (authorization req) = (r, cs)"
    by (cases "verifyAuth e (authorization req)") auto
  show ?thesis
    by (auto simp: accepted_def submit_feedback_def va Let_def kv_set_def c_json_def
        write_feedback_def feedback_record_def status_internal_error unauthorized_def
        split: sum.splits option.splits bool.splits)
qed

lemma submit_all_write_all: "submit_all rs s = write_all (accepted_submissions rs) s"
proof (induction rs arbitrary: s)
  case Nil
  then show ?case by (simp add: accepted_submissions_def write_all_def List.map_filter_simps)
next
  case (Cons p rs)
  obtain e req where p: "p = (e, req)" by (cases p)
  show ?case
    using Cons.IH [of "fst (snd (submit_feedback e req s))"]
    by (simp add: p submit_feedback_store accepted_submissions_def write_all_def
        List.map_filter_simps split: option.splits)
qed

text \<open>A second submission with the key of an earlier one replaces its record.\<close>

lemma same_key_overwrites:
  "write_all
     [\<lparr>sub_driver = d, sub_time = t, sub_author = u, sub_record = r1\<rparr>,
      \<lparr>sub_driver = d, sub_time = t, sub_author = u, sub_record = r2\<rparr>] [] =
   [(feedbackId d t u, r2)]"
  by (simp add: write_all_def write_feedback_def)

section \<open>The bearer prefix test of \<^verbatim>\<open>verifyAuth\<close>\<close>

text \<open>
  C10. For every \<^verbatim>\<open>Authorization\<close> header that is absent, or that does not start with
  the six characters \<^verbatim>\<open>Bearer\<close> followed by one space (compared character by character,
  so case-sensitively), \<^verbatim>\<open>verifyAuth\<close> returns \<^verbatim>\<open>null\<close> and makes no call at all: its
  list of calls is empty. And whenever \<^verbatim>\<open>verifyAuth\<close> makes a call, the header has that
  shape and the call is the single \<^verbatim>\<open>getUser\<close> of the token, the second piece of the
  header split at spaces.
\<close>

theorem verifyAuth_bearer_prefix:
  "(authHeader = None \<or> (\<exists>h. authHeader = Some h \<and> \<not> prefix ''Bearer '' h) \<longrightarrow>
      verifyAuth e authHeader = (Inr None, []))
   \<and> (snd (verifyAuth e authHeader) \<noteq> [] \<longrightarrow>
      (\<exists>h. authHeader = Some h \<and> prefix ''Bearer '' h
           \<and> snd (verifyAuth e authHeader) = [GetUser (index (split_on CHR '' '' h) 1)]))"
  by (auto simp: verifyAuth_def Let_def split: option.splits sum.splits)

text \<open>
  At the header \<^verbatim>\<open>bearer tok1\<close> (a lower-case b), whose token the example provider
  would accept, and at the header \<^verbatim>\<open>Bearer tok1\<close>.
\<close>

theorem verifyAuth_bearer_prefix_witness:
  "\<not> prefix ''Bearer '' ''bearer tok1''
   \<and> verifyAuth example_env (Some ''bearer tok1'') = (Inr None, [])
   \<and> prefix ''Bearer '' ''Bearer tok1''
   \<and> snd (verifyAuth example_env (Some ''Bearer tok1'')) = [GetUser (Some ''tok1'')]"
  using verifyAuth_bearer_prefix [of "Some ''bearer tok1''" example_env]
    verifyAuth_bearer_prefix [of "Some ''Bearer tok1''" example_env]
  by (simp add: verifyAuth_def example_env_def)

section \<open>Unauthorized requests\<close>

text \<open>
  C1. Take a request whose \<^verbatim>\<open>Authorization\<close> header is absent, or does not start with
  \<^verbatim>\<open>Bearer\<close> and a space, or for which \<^verbatim>\<open>verifyAuth\<close> returns \<^verbatim>\<open>null\<close> (the provider
  reports an error or no user). Then each of the six protected handlers (save
  university, save location, fetch profile, save pickup route, get pickup route, submit
  feedback) answers its Unauthorized response with status 401, returns the store as it
  was, and has made only the calls of \<^verbatim>\<open>verifyAuth\<close>, none of which is a \<^verbatim>\<open>kv.set\<close>.
\<close>

theorem protected_unauthorized_no_mutation:
  assumes "authorization req = None
           \<or> (\<exists>h. authorization req = Some h \<and> \<not> prefix ''Bearer '' h)
           \<or> fst (verifyAuth e (authorization req)) = Inr None"
  shows "(\<forall>k v. KvSet k v \<notin> set (snd (verifyAuth e (authorization req))))
     \<and> save_university e req s =
         (unauthorized ''Unauthorized - Please login with your credentials'', s,
          snd (verifyAuth e (authorization req)))
     \<and> save_location e req s =
         (unauthorized ''Unauthorized - Please login with your credentials'', s,
          snd (verifyAuth e (authorization req)))
     \<and> get_profile e req s =
         (unauthorized ''Unauthorized - Please login with your credentials'', s,
          snd (verifyAuth e (authorization req)))
     \<and> save_pickup_route e req s =
         (unauthorized ''Unauthorized - Please login with your credentials'', s,
          snd (verifyAuth e (authorization req)))
     \<and> get_pickup_route e req s =
         (unauthorized ''Unauthorized - Please login with your credentials'', s,
          snd (verifyAuth e (authorization req)))
     \<and> submit_feedback e req s =
         (unauthorized ''Unauthorized - Please login to submit feedback'', s,
          snd (verifyAuth e (authorization req)))
     \<and> status (unauthorized ''Unauthorized - Please login with your credentials'') = 401
     \<and> status (unauthorized ''Unauthorized - Please login to submit feedback'') = 401"
proof -
  obtain cs where va: "verifyAuth e (authorization req) = (Inr None, cs)"
    using assms verifyAuth_malformed [of "authorization req" e]
    by (cases "verifyAuth e (authorization req)") auto
  have "\<forall>k v. KvSet k v \<notin> set (snd (verifyAuth e (authorization req)))"
    by (simp add: verifyAuth_calls)
  moreover have "save_university e req s =
      (unauthorized ''Unauthorized - Please login with your credentials'', s, cs)"
    by (simp add: save_university_def va)
  moreover have "save_location e req s =
      (unauthorized ''Unauthorized - Please login with your credentials'', s, cs)"
    by (simp add: save_location_def va)
  moreover have "get_profile e req s =
      (unauthorized ''Unauthorized - Please login with your credentials'', s, cs)"
    by (simp add: get_profile_def va)
  moreover have "save_pickup_route e req s =
      (unauthorized ''Unauthorized - Please login with your credentials'', s, cs)"
    by (simp add: save_pickup_route_def va)
  moreover have "get_pickup_route e req s =
      (unauthorized ''Unauthorized - Please login with your credentials'', s, cs)"
    by (simp add: get_pickup_route_def va)
  moreover have "submit_feedback e req s =
      (unauthorized ''Unauthorized - Please login to submit feedback'', s, cs)"
    by (simp add: submit_feedback_def va)
  moreover have "status (unauthorized m) = 401" for m
    by (simp add: unauthorized_def c_json_def)
  ultimately show ?thesis by (simp add: va)
qed

text \<open>At the request without a header, on a store that holds one record.\<close>

theorem protected_unauthorized_no_mutation_witness:
  "authorization anonymous_request = None
   \<and> save_university example_env anonymous_request example_store
       = (\<lparr>payload = Obj [(''error'', Str ''Unauthorized - Please login with your credentials'')],
           status = 401\<rparr>, example_store, [])
   \<and> save_location example_env anonymous_request example_store
       = (\<lparr>payload = Obj [(''error'', Str ''Unauthorized - Please login with your credentials'')],
           status = 401\<rparr>, example_store, [])
   \<and> get_profile example_env anonymous_request example_store
       = (\<lparr>payload = Obj [(''error'', Str ''Unauthorized - Please login with your credentials'')],
           status = 401\<rparr>, example_store, [])
   \<and> save_pickup_route example_env anonymous_request example_store
       = (\<lparr>payload = Obj [(''error'', Str ''Unauthorized - Please login with your credentials'')],
           status = 401\<rparr>, example_store, [])
   \<and> get_pickup_route example_env anonymous_request example_store
       = (\<lparr>payload = Obj [(''error'', Str ''Unauthorized - Please login with your credentials'')],
           status = 401\<rparr>, example_store, [])
   \<and> submit_feedback example_env anonymous_request example_store
       = (\<lparr>payload = Obj [(''error'', Str ''Unauthorized - Please login to submit feedback'')],
           status = 401\<rparr>, example_store, [])"
  using protected_unauthorized_no_mutation [of anonymous_request example_env example_store]
  by (simp add: anonymous_request_def unauthorized_def c_json_def verifyAuth_def)

section \<open>Sign-up validation\<close>

text \<open>
  C7. For every sign-up request whose body is an object with a string password of fewer
  than 6 characters, the handler answers a validation error with status 400 and makes no
  call at all: neither \<^verbatim>\<open>listUsers\<close> nor \<^verbatim>\<open>createUser\<close> is reached. With email, name and
  role present and the password not empty, the error is the one about the password's
  length.
\<close>

theorem signup_short_password_no_provider_call:
  assumes "json_body req = Inr (Obj fs)"
    and "field fs ''password'' = Str p"
    and "length p < 6"
  shows "signup e req =
     (c_json (Obj [(''error'', Str
        (if truthy (field fs ''email'') \<and> p \<noteq> [] \<and> truthy (field fs ''name'')
            \<and> truthy (field fs ''role'')
         then ''Password must be at least 6 characters long''
         else ''Email, password, name, and role are required''))]) 400,
      [])"
  using assms by (simp add: signup_def req_fields_def js_lt_def Let_def)

text \<open>At the five-character password \<^verbatim>\<open>12345\<close>.\<close>

theorem signup_short_password_no_provider_call_witness:
  "json_body short_password_request = Inr (Obj
        [(''email'', Str ''new@x.com''),
         (''password'', Str ''12345''),
         (''name'', Str ''Ann''),
         (''role'', Str ''student'')])
   \<and> length ''12345'' < 6
   \<and> signup example_env short_password_request =
       (\<lparr>payload = Obj [(''error'', Str ''Password must be at least 6 characters long'')],
         status = 400\<rparr>, [])"
  using signup_short_password_no_provider_call
    [of short_password_request
        "[(''email'', Str ''new@x.com''), (''password'', Str ''12345''),
          (''name'', Str ''Ann''), (''role'', Str ''student'')]" "''12345''" example_env]
  by (simp add: short_password_request_def field_def c_json_def)

section \<open>Duplicate emails at sign-up\<close>

text \<open>
  The sign-up of \<^verbatim>\<open>A@x.com\<close>, when the provider lists \<^verbatim>\<open>a@x.com\<close>, reaches \<^verbatim>\<open>createUser\<close>
  whatever \<^verbatim>\<open>createUser\<close> then answers.
\<close>

lemma signup_other_case_reaches_createUser:
  "snd (signup (example_env\<lparr>createUser := c\<rparr>) (signup_request ''A@x.com'')) =
       [ListUsers,
        CreateUser (Obj
          [(''email'', Str ''A@x.com''),
           (''password'', Str ''secret1''),
           (''email_confirm'', Bool True),
           (''user_metadata'', Obj
              [(''name'', Str ''Ann''), (''role'', Str ''student''), (''roll_number'', Null),
               (''phone_number'', Null), (''emergency_phone'', Null)])])]"
  by (simp add: example_env_def signup_def signup_request_def req_fields_def field_def js_lt_def
      js_or_def Let_def split: sum.splits create_result.splits)

text \<open>
  C4, as the spec states it, fails: an email that differs from a registered one only in
  letter case passes the handler's check \<^verbatim>\<open>u.email === email\<close>. The provider lists
  \<^verbatim>\<open>a@x.com\<close>; the sign-up of \<^verbatim>\<open>A@x.com\<close> is not rejected by the handler, which calls
  \<^verbatim>\<open>createUser\<close> for it.
\<close>

theorem signup_other_case_not_rejected:
  "equal_up_to_case ''A@x.com'' ''a@x.com''
   \<and> listUsers example_env = Inr [\<lparr>user_id = ''u0'', user_email = Some ''a@x.com''\<rparr>]
   \<and> snd (signup example_env (signup_request ''A@x.com'')) =
       [ListUsers,
        CreateUser (Obj
          [(''email'', Str ''A@x.com''),
           (''password'', Str ''secret1''),
           (''email_confirm'', Bool True),
           (''user_metadata'', Obj
              [(''name'', Str ''Ann''), (''role'', Str ''student''), (''roll_number'', Null),
               (''phone_number'', Null), (''emergency_phone'', Null)])])]"
  by (simp add: equal_up_to_case_def lower_case_def example_env_def signup_def signup_request_def
      req_fields_def field_def js_lt_def js_or_def c_json_def Let_def)

text \<open>
  C4, amended. Take a sign-up request with a non-empty string email, a string password
  of at least 6 characters, a name and a role, and a provider whose \<^verbatim>\<open>listUsers\<close> answers.
  If the email is exactly (character for character) the email of a listed user, the
  handler answers "An account with this email already exists" with status 400 and never
  calls \<^verbatim>\<open>createUser\<close>. If no listed user has exactly this email, the handler calls
  \<^verbatim>\<open>createUser\<close> with the request's data, and answers 200 when the provider returns the
  created user and the role converts to a string (as every string, number and boolean
  does).
\<close>

theorem signup_duplicate_check:
  assumes body: "req_fields e req = Inr f"
    and mail: "f ''email'' = Str m" "m \<noteq> []"
    and pw: "f ''password'' = Str p" "6 \<le> length p"
    and rest: "truthy (f ''name'')" "truthy (f ''role'')"
    and users: "listUsers e = Inr us"
  shows "((\<exists>u \<in> set us. user_email u = Some m) \<longrightarrow>
           signup e req =
             (c_json (Obj [(''error'', Str ''An account with this email already exists'')]) 400,
              [ListUsers]))
       \<and> (\<not> (\<exists>u \<in> set us. user_email u = Some m) \<longrightarrow>
           snd (signup e req) = [ListUsers, CreateUser (createUser_args f)]
           \<and> (\<forall>u role_text.
                 createUser e (createUser_args f) = Inr (Created u)
                 \<and> ToString e (f ''role'') = Inr role_text \<longrightarrow>
                 status (fst (signup e req)) = 200))"
  using rest pw(2) mail(2)
  by (auto simp: signup_def body mail(1) pw(1) users js_lt_def Let_def list_ex_strict_eq
      createUser_args_def c_json_def split: sum.splits create_result.splits)

text \<open>At the registered email \<^verbatim>\<open>a@x.com\<close> and at the new email \<^verbatim>\<open>new@x.com\<close>.\<close>

theorem signup_duplicate_check_witness:
  "signup example_env (signup_request ''a@x.com'') =
     (\<lparr>payload = Obj [(''error'', Str ''An account with this email already exists'')], status = 400\<rparr>,
      [ListUsers])
   \<and> ToString example_env (Str ''student'') = Inr ''student''
   \<and> status (fst (signup example_env (signup_request ''new@x.com''))) = 200"
  using signup_duplicate_check
     [of example_env "signup_request ''a@x.com''"
         "field [(''email'', Str ''a@x.com''), (''password'', Str ''secret1''),
                 (''name'', Str ''Ann''), (''role'', Str ''student'')]"
         "''a@x.com''" "''secret1''"
         "[\<lparr>user_id = ''u0'', user_email = Some ''a@x.com''\<rparr>]"]
    signup_duplicate_check
     [of example_env "signup_request ''new@x.com''"
         "field [(''email'', Str ''new@x.com''), (''password'', Str ''secret1''),
                 (''name'', Str ''Ann''), (''role'', Str ''student'')]"
         "''new@x.com''" "''secret1''"
         "[\<lparr>user_id = ''u0'', user_email = Some ''a@x.com''\<rparr>]"]
  by (simp add: signup_request_def req_fields_def field_def example_env_def c_json_def)

section \<open>A latitude of zero\<close>

text \<open>
  C5. Take a save-location request whose body is an object with \<^verbatim>\<open>latitude\<close> the number 0
  (a save-pickup-route request with \<^verbatim>\<open>pickup_latitude\<close> the number 0). Whatever the other
  fields are, the handler leaves the store as it was and makes no \<^verbatim>\<open>kv.set\<close> call, and its
  whole result is the one of the same request with the latitude field removed. For an
  authenticated caller the answer is the error about missing coordinates, status 400.
\<close>

theorem zero_latitude_rejected:
  assumes body: "json_body req = Inr (Obj fs)"
  shows "(field fs ''latitude'' = Num (Fin 0) \<longrightarrow>
            fst (snd (save_location e req s)) = s
            \<and> (\<forall>k v. KvSet k v \<notin> set (snd (snd (save_location e req s))))
            \<and> save_location e req s =
                save_location e (req\<lparr>json_body := Inr (Obj (AList.delete ''latitude'' fs))\<rparr>) s
            \<and> (\<forall>user. fst (verifyAuth e (authorization req)) = Inr (Some user) \<longrightarrow>
                 fst (save_location e req s) =
                   c_json (Obj [(''error'', Str ''Latitude and longitude are required'')]) 400))
       \<and> (field fs ''pickup_latitude'' = Num (Fin 0) \<longrightarrow>
            fst (snd (save_pickup_route e req s)) = s
            \<and> (\<forall>k v. KvSet k v \<notin> set (snd (snd (save_pickup_route e req s))))
            \<and> save_pickup_route e req s =
                save_pickup_route e
                  (req\<lparr>json_body := Inr (Obj (AList.delete ''pickup_latitude'' fs))\<rparr>) s
            \<and> (\<forall>user. fst (verifyAuth e (authorization req)) = Inr (Some user) \<longrightarrow>
                 fst (save_pickup_route e req s) =
                   c_json (Obj [(''error'', Str ''Bus ID and pickup coordinates are required'')]) 400))"
proof -
  obtain r cs where va: "verifyAuth e (authorization req) = (r, cs)"
    by (cases "verifyAuth e (authorization req)") auto
  have cs: "KvSet k v \<notin> set cs" for k v
    using verifyAuth_calls [of k v e "authorization req"] by (simp add: va)
  show ?thesis
    by (simp add: save_location_def save_pickup_route_def va body req_fields_def field_delete
        Let_def cs split: sum.splits option.splits)
qed

text \<open>At a point on the equator, sent by the caller \<^verbatim>\<open>u1\<close>.\<close>

theorem zero_latitude_rejected_witness:
  "json_body equator_request = Inr (Obj equator_fields)
   \<and> field equator_fields ''latitude'' = Num (Fin 0)
   \<and> field equator_fields ''pickup_latitude'' = Num (Fin 0)
   \<and> save_location example_env equator_request example_store =
     (\<lparr>payload = Obj [(''error'', Str ''Latitude and longitude are required'')], status = 400\<rparr>,
      example_store, [GetUser (Some ''tok1'')])
   \<and> save_pickup_route example_env equator_request example_store =
     (\<lparr>payload = Obj [(''error'', Str ''Bus ID and pickup coordinates are required'')], status = 400\<rparr>,
      example_store, [GetUser (Some ''tok1'')])"
  using zero_latitude_rejected [of equator_request equator_fields example_env example_store]
  by (simp add: equator_request_def equator_fields_def example_env_def verifyAuth_def field_def
      c_json_def save_location_def save_pickup_route_def req_fields_def)

section \<open>A pickup route that was never saved\<close>

text \<open>
  C8. For an authenticated caller whose pickup-route key holds nothing in the store (no
  route was ever saved), and a store that answers the read, \<^verbatim>\<open>GET /user/pickup-route\<close>
  answers with status 200 and \<^verbatim>\<open>pickup_route\<close> absent (\<^verbatim>\<open>undefined\<close>); the store is
  unchanged.
\<close>

theorem get_pickup_route_never_saved:
  assumes auth: "fst (verifyAuth e (authorization req)) = Inr (Some user)"
    and never: "map_of s (''user:'' @ userId user @ '':pickup-route'') = None"
    and up: "kv_fault e (KvGet (''user:'' @ userId user @ '':pickup-route'')) = None"
  shows "get_pickup_route e req s =
     (c_json (Obj [(''pickup_route'', Undefined)]) 200, s,
      snd (verifyAuth e (authorization req)) @ [KvGet (''user:'' @ userId user @ '':pickup-route'')])"
proof -
  obtain cs where va: "verifyAuth e (authorization req) = (Inr (Some user), cs)"
    using auth by (cases "verifyAuth e (authorization req)") auto
  show ?thesis
    using never up by (simp add: get_pickup_route_def va kv_get_def Let_def)
qed

text \<open>At the caller \<^verbatim>\<open>u1\<close>, on a store that holds only this caller's university.\<close>

theorem get_pickup_route_never_saved_witness:
  "get_pickup_route example_env profile_request example_store =
     (\<lparr>payload = Obj [(''pickup_route'', Undefined)], status = 200\<rparr>, example_store,
      [GetUser (Some ''tok1''), KvGet ''user:u1:pickup-route''])"
  using get_pickup_route_never_saved
    [of example_env profile_request "\<lparr>userId = ''u1'', email = ''u1@x.com''\<rparr>" example_store]
  by (simp add: profile_request_def example_env_def example_store_def verifyAuth_def c_json_def)

section \<open>The rating of a feedback\<close>

text \<open>
  C3, as the spec states it, fails: the handler tests \<^verbatim>\<open>rating < 1 || rating > 5\<close> and
  nothing else, so the rating 2.5, which is not an integer, is accepted and written.
\<close>

theorem fractional_rating_accepted:
  "\<not> integer_between_1_and_5 (Num (Fin (5 / 2)))
   \<and> submit_feedback example_env (feedback_request (Str ''d1'') (Num (Fin (5 / 2)))) [] =
       (\<lparr>payload = Obj [(''success'', Bool True), (''message'', Str ''Feedback submitted successfully'')],
         status = 200\<rparr>,
        [(''feedback:d1:42:u1'',
          Obj [(''driver_id'', Str ''d1''), (''user_id'', Str ''u1''),
               (''user_email'', Str ''u1@x.com''), (''rating'', Num (Fin (5 / 2))),
               (''comment'', Null), (''created_at'', Str ''2024-01-01T00:00:00.000Z'')])],
        [GetUser (Some ''tok1''),
         KvSet ''feedback:d1:42:u1''
           (Obj [(''driver_id'', Str ''d1''), (''user_id'', Str ''u1''),
                 (''user_email'', Str ''u1@x.com''), (''rating'', Num (Fin (5 / 2))),
                 (''comment'', Null), (''created_at'', Str ''2024-01-01T00:00:00.000Z'')])])"
  by (simp add: integer_between_1_and_5_def submit_feedback_def feedback_request_def example_env_def
      verifyAuth_def req_fields_def field_def js_lt_def js_gt_def feedbackId_def decimal.simps
      digit_def kv_set_def c_json_def js_or_def Let_def)

text \<open>
  C3, amended. For an authenticated caller and a present driver id, let the rating
  convert to the number \<^verbatim>\<open>q\<close> (a number converts to itself, \<^verbatim>\<open>true\<close> to 1). A rating that
  is falsy (absent, \<^verbatim>\<open>null\<close>, \<^verbatim>\<open>false\<close>, 0, NaN, the empty string), or whose number is
  below 1 or above 5, is answered with status 400, the store is unchanged and no
  \<^verbatim>\<open>kv.set\<close> is called. A truthy rating whose number \<^verbatim>\<open>r\<close> has \<^verbatim>\<open>1 <= r <= 5\<close>, integer or
  not, so 1 and 5 among them, is accepted, provided the driver id converts to a string:
  the handler calls \<^verbatim>\<open>kv.set\<close> with the feedback key and record, and when the store takes
  the write the answer is 200 and the store holds the record.
\<close>

theorem rating_validation:
  assumes auth: "fst (verifyAuth e (authorization req)) = Inr (Some user)"
    and body: "req_fields e req = Inr f"
    and driver: "truthy (f ''driver_id'')"
    and number: "ToNumber e (f ''rating'') = Inr q"
  shows "(\<not> truthy (f ''rating'') \<or> q = NegInf \<or> q = PosInf
            \<or> (\<exists>r. q = Fin r \<and> (r < 1 \<or> 5 < r)) \<longrightarrow>
           status (fst (submit_feedback e req s)) = 400
           \<and> fst (snd (submit_feedback e req s)) = s
           \<and> snd (snd (submit_feedback e req s)) = snd (verifyAuth e (authorization req)))
       \<and> (truthy (f ''rating'') \<and> (\<exists>r. q = Fin r \<and> 1 \<le> r \<and> r \<le> 5) \<longrightarrow>
           (\<forall>driver_text. ToString e (f ''driver_id'') = Inr driver_text \<longrightarrow>
              snd (snd (submit_feedback e req s)) =
                snd (verifyAuth e (authorization req)) @
                  [KvSet (feedbackId driver_text (Date_now e) (userId user))
                     (feedback_record e user f)]
              \<and> (kv_fault e (KvSet (feedbackId driver_text (Date_now e) (userId user))
                     (feedback_record e user f)) = None \<longrightarrow>
                   status (fst (submit_feedback e req s)) = 200
                   \<and> fst (snd (submit_feedback e req s)) =
                       AList.update (feedbackId driver_text (Date_now e) (userId user))
                         (feedback_record e user f) s)))"
proof -
  obtain cs where va: "verifyAuth e (authorization req) = (Inr (Some user), cs)"
    using auth by (cases "verifyAuth e (authorization req)") auto
  show ?thesis
    using driver
    by (auto simp: submit_feedback_def va body number js_lt_def js_gt_def Let_def kv_set_def
        feedback_record_def c_json_def split: option.splits)
qed

text \<open>
  At the ratings 0, 6, 1, 5 and \<^verbatim>\<open>true\<close> of the caller \<^verbatim>\<open>u1\<close> for the driver \<^verbatim>\<open>d1\<close>.
\<close>

theorem rating_validation_witness:
  "status (fst (submit_feedback example_env (feedback_request (Str ''d1'') (Num (Fin 0))) [])) = 400
   \<and> fst (snd (submit_feedback example_env (feedback_request (Str ''d1'') (Num (Fin 0))) [])) = []
   \<and> status (fst (submit_feedback example_env (feedback_request (Str ''d1'') (Num (Fin 6))) [])) = 400
   \<and> fst (snd (submit_feedback example_env (feedback_request (Str ''d1'') (Num (Fin 6))) [])) = []
   \<and> status (fst (submit_feedback example_env (feedback_request (Str ''d1'') (Num (Fin 1))) [])) = 200
   \<and> status (fst (submit_feedback example_env (feedback_request (Str ''d1'') (Bool True)) [])) = 200
   \<and> status (fst (submit_feedback example_env (feedback_request (Str ''d1'') (Num (Fin 5))) [])) = 200
   \<and> fst (snd (submit_feedback example_env (feedback_request (Str ''d1'') (Num (Fin 5))) [])) =
       [(''feedback:d1:42:u1'',
         Obj [(''driver_id'', Str ''d1''), (''user_id'', Str ''u1''),
              (''user_email'', Str ''u1@x.com''), (''rating'', Num (Fin 5)),
              (''comment'', Null), (''created_at'', Str ''2024-01-01T00:00:00.000Z'')])]"
  using
    rating_validation [of example_env "feedback_request (Str ''d1'') (Num (Fin 0))"
      "\<lparr>userId = ''u1'', email = ''u1@x.com''\<rparr>"
      "field [(''driver_id'', Str ''d1''), (''rating'', Num (Fin 0))]" "Fin 0" "[]"]
    rating_validation [of example_env "feedback_request (Str ''d1'') (Num (Fin 6))"
      "\<lparr>userId = ''u1'', email = ''u1@x.com''\<rparr>"
      "field [(''driver_id'', Str ''d1''), (''rating'', Num (Fin 6))]" "Fin 6" "[]"]
    rating_validation [of example_env "feedback_request (Str ''d1'') (Num (Fin 1))"
      "\<lparr>userId = ''u1'', email = ''u1@x.com''\<rparr>"
      "field [(''driver_id'', Str ''d1''), (''rating'', Num (Fin 1))]" "Fin 1" "[]"]
    rating_validation [of example_env "feedback_request (Str ''d1'') (Bool True)"
      "\<lparr>userId = ''u1'', email = ''u1@x.com''\<rparr>"
      "field [(''driver_id'', Str ''d1''), (''rating'', Bool True)]" "Fin 1" "[]"]
    rating_validation [of example_env "feedback_request (Str ''d1'') (Num (Fin 5))"
      "\<lparr>userId = ''u1'', email = ''u1@x.com''\<rparr>"
      "field [(''driver_id'', Str ''d1''), (''rating'', Num (Fin 5))]" "Fin 5" "[]"]
  by (simp add: feedback_request_def example_env_def verifyAuth_def req_fields_def field_def
      feedback_record_def feedbackId_def decimal.simps digit_def js_or_def)

section \<open>Round trip and last writer wins\<close>

text \<open>
  C6. For every key \<^verbatim>\<open>k\<close> and value \<^verbatim>\<open>v\<close>, a \<^verbatim>\<open>set(k, v)\<close> that succeeds followed by a
  \<^verbatim>\<open>get(k)\<close> that the store answers returns exactly \<^verbatim>\<open>v\<close>. And when one user saves a
  location twice, both with success, a profile read that succeeds afterwards carries as
  \<^verbatim>\<open>location\<close> exactly the record of the second save: the second request's latitude,
  longitude and address, and the second save's time; nothing of the first remains.
\<close>

theorem set_get_roundtrip_last_writer_wins:
  "(kv_set e k v s = Inr s' \<and> kv_fault e' (KvGet k) = None \<longrightarrow> kv_get e' k s' = Inr v)
   \<and> (save_location e1 req1 s0 = (r1, s1, c1) \<and> status r1 = 200
      \<and> save_location e2 req2 s1 = (r2, s2, c2) \<and> status r2 = 200
      \<and> get_profile e3 req3 s2 = (r3, s3, c3) \<and> status r3 = 200
      \<and> fst (verifyAuth e1 (authorization req1)) = Inr (Some user1)
      \<and> fst (verifyAuth e2 (authorization req2)) = Inr (Some user2)
      \<and> fst (verifyAuth e3 (authorization req3)) = Inr (Some user3)
      \<and> userId user1 = userId user2 \<and> userId user2 = userId user3
      \<and> req_fields e2 req2 = Inr f2
      \<longrightarrow> optional_field (payload r3) ''location'' = location_record e2 f2)"
proof -
  have a: "kv_get e' k s' = Inr v" if "kv_set e k v s = Inr s'" "kv_fault e' (KvGet k) = None"
    using that by (auto simp: kv_set_def kv_get_def AList.update_conv' split: option.splits)
  have b: "optional_field (payload r3) ''location'' = location_record e2 f2"
    if h: "save_location e2 req2 s1 = (r2, s2, c2)" "status r2 = 200"
      "get_profile e3 req3 s2 = (r3, s3, c3)" "status r3 = 200"
      "fst (verifyAuth e2 (authorization req2)) = Inr (Some user2)"
      "fst (verifyAuth e3 (authorization req3)) = Inr (Some user3)"
      "userId user2 = userId user3" "req_fields e2 req2 = Inr f2"
  proof -
    have "s2 = AList.update (''user:'' @ userId user2 @ '':location'') (location_record e2 f2) s1"
      using save_location_ok [OF h(1,2,5,8)] .
    then have "map_of s2 (''user:'' @ userId user3 @ '':location'') = Some (location_record e2 f2)"
      by (simp add: AList.update_conv' h(7))
    then show ?thesis
      using get_profile_ok [OF h(3,4,6)] by simp
  qed
  show ?thesis using a b by blast
qed

text \<open>
  At the caller \<^verbatim>\<open>u1\<close>, who saves the location (1, 2), then (3, 4), and reads the
  profile.
\<close>

theorem set_get_roundtrip_last_writer_wins_witness:
  "kv_get example_env ''k'' (AList.update ''k'' (Num (Fin 3)) [(''k'', Null)]) = Inr (Num (Fin 3))
   \<and> optional_field
        (payload (fst (get_profile example_env (location_request 0 0)
           (fst (snd (save_location example_env (location_request 3 4)
              (fst (snd (save_location example_env (location_request 1 2) [])))))))))
        ''location''
      = Obj [(''latitude'', Num (Fin 3)), (''longitude'', Num (Fin 4)), (''address'', Null),
             (''updated_at'', Str ''2024-01-01T00:00:00.000Z'')]"
  using set_get_roundtrip_last_writer_wins
    [of example_env "''k''" "Num (Fin 3)" "[(''k'', Null)]" "AList.update ''k'' (Num (Fin 3)) [(''k'', Null)]"
        example_env
        example_env "location_request 1 2" "[]"
        "fst (save_location example_env (location_request 1 2) [])"
        "fst (snd (save_location example_env (location_request 1 2) []))"
        "snd (snd (save_location example_env (location_request 1 2) []))"
        example_env "location_request 3 4"
        "fst (save_location example_env (location_request 3 4)
              (fst (snd (save_location example_env (location_request 1 2) []))))"
        "fst (snd (save_location example_env (location_request 3 4)
              (fst (snd (save_location example_env (location_request 1 2) [])))))"
        "snd (snd (save_location example_env (location_request 3 4)
              (fst (snd (save_location example_env (location_request 1 2) [])))))"
        example_env "location_request 0 0"
        "fst (get_profile example_env (location_request 0 0)
           (fst (snd (save_location example_env (location_request 3 4)
              (fst (snd (save_location example_env (location_request 1 2) [])))))))"
        "fst (snd (get_profile example_env (location_request 0 0)
           (fst (snd (save_location example_env (location_request 3 4)
              (fst (snd (save_location example_env (location_request 1 2) []))))))))"
        "snd (snd (get_profile example_env (location_request 0 0)
           (fst (snd (save_location example_env (location_request 3 4)
              (fst (snd (save_location example_env (location_request 1 2) []))))))))"
        "\<lparr>userId = ''u1'', email = ''u1@x.com''\<rparr>"
        "\<lparr>userId = ''u1'', email = ''u1@x.com''\<rparr>"
        "\<lparr>userId = ''u1'', email = ''u1@x.com''\<rparr>"
        "field [(''latitude'', Num (Fin 3)), (''longitude'', Num (Fin 4))]"]
  by (simp add: example_env_def location_request_def save_location_def get_profile_def
      verifyAuth_def req_fields_def field_def kv_set_def kv_get_def js_or_def c_json_def
      location_record_def Let_def)

section \<open>Listing the feedback of a driver\<close>

text \<open>
  C2, as the spec states it, fails: the key of a record for the driver \<^verbatim>\<open>a:b\<close> starts
  with \<^verbatim>\<open>feedback:a:\<close>, so the list for the driver \<^verbatim>\<open>a\<close> returns it.
\<close>

theorem feedback_scan_leaks_other_driver:
  "''a'' \<noteq> ''a:b''
   \<and> fst (list_feedback example_env (driver_request ''a'')
        (fst (snd (submit_feedback example_env (feedback_request (Str ''a:b'') (Num (Fin 5))) [])))) =
      \<lparr>payload = Obj [(''feedback'', Arr
          [Obj [(''driver_id'', Str ''a:b''), (''user_id'', Str ''u1''),
                (''user_email'', Str ''u1@x.com''), (''rating'', Num (Fin 5)),
                (''comment'', Null), (''created_at'', Str ''2024-01-01T00:00:00.000Z'')]])],
        status = 200\<rparr>"
  by (simp add: submit_feedback_def list_feedback_def feedback_request_def driver_request_def
      example_env_def verifyAuth_def req_fields_def field_def js_lt_def js_gt_def feedbackId_def
      decimal.simps digit_def kv_set_def kv_getByPrefix_def c_json_def js_or_def Let_def)

text \<open>
  C2, amended. Let neither of the driver ids \<^verbatim>\<open>D1\<close> and \<^verbatim>\<open>D2\<close> hold a colon. Handle
  any sequence of \<^verbatim>\<open>POST /feedback\<close> requests on the empty store, in any order, such that
  every accepted submission is for \<^verbatim>\<open>D1\<close> or \<^verbatim>\<open>D2\<close> and no two accepted submissions for
  \<^verbatim>\<open>D1\<close> have both the same time and the same author. Then the list of \<^verbatim>\<open>D1\<close>'s
  feedback answers 200 with exactly the records written for \<^verbatim>\<open>D1\<close>, each as often as it
  was written and none of \<^verbatim>\<open>D2\<close>: the two are equal as multisets (the order of a scan
  is unspecified).
\<close>

theorem feedback_scan_exact:
  assumes d1: "CHR '':'' \<notin> set D1" and d2: "CHR '':'' \<notin> set D2"
    and drivers: "\<forall>w \<in> set (accepted_submissions rs). sub_driver w = D1 \<or> sub_driver w = D2"
    and keys: "distinct (map (\<lambda>w. (sub_time w, sub_author w))
                 (filter (\<lambda>w. sub_driver w = D1) (accepted_submissions rs)))"
    and param: "driverId req = D1"
    and up: "kv_fault e (KvGetByPrefix (''feedback:'' @ D1 @ '':'')) = None"
  shows "\<exists>out. list_feedback e req (submit_all rs []) =
           (c_json (Obj [(''feedback'', Arr out)]) 200, submit_all rs [],
            [KvGetByPrefix (''feedback:'' @ D1 @ '':'')])
         \<and> mset out =
             mset (map sub_record (filter (\<lambda>w. sub_driver w = D1) (accepted_submissions rs)))"
proof -
  let ?S = "submit_all rs []"
  let ?out = "map snd (filter (\<lambda>kv. prefix (''feedback:'' @ D1 @ '':'') (fst kv)) ?S)"
  have "list_feedback e req ?S =
           (c_json (Obj [(''feedback'', Arr ?out)]) 200, ?S,
            [KvGetByPrefix (''feedback:'' @ D1 @ '':'')])"
    using up by (simp add: list_feedback_def kv_getByPrefix_def param Let_def)
  moreover have "mset ?out =
      mset (map sub_record (filter (\<lambda>w. sub_driver w = D1) (accepted_submissions rs)))"
    unfolding submit_all_write_all by (rule scan_write_all [OF d1 d2 drivers keys])
  ultimately show ?thesis by blast
qed

text \<open>At the five example submissions, of which four are accepted, two of them for \<^verbatim>\<open>d1\<close>.\<close>

theorem feedback_scan_exact_witness:
  "CHR '':'' \<notin> set ''d1'' \<and> CHR '':'' \<notin> set ''d2''
   \<and> map (\<lambda>w. (sub_driver w, sub_time w, sub_author w)) (accepted_submissions example_requests) =
       [(''d2'', 1, ''u1''), (''d1'', 2, ''u1''), (''d2'', 4, ''u1''), (''d1'', 5, ''u1'')]
   \<and> fst (list_feedback example_env (driver_request ''d1'') (submit_all example_requests [])) =
       \<lparr>payload = Obj [(''feedback'', Arr
          [Obj [(''driver_id'', Str ''d1''), (''user_id'', Str ''u1''),
                (''user_email'', Str ''u1@x.com''), (''rating'', Num (Fin 5)),
                (''comment'', Null), (''created_at'', Str ''2024-01-01T00:00:00.000Z'')],
           Obj [(''driver_id'', Str ''d1''), (''user_id'', Str ''u1''),
                (''user_email'', Str ''u1@x.com''), (''rating'', Num (Fin 4)),
                (''comment'', Null), (''created_at'', Str ''2024-01-01T00:00:00.000Z'')]])],
        status = 200\<rparr>"
  using feedback_scan_exact [of "''d1''" "''d2''" example_requests "driver_request ''d1''" example_env]
  by (simp add: example_requests_def accepted_submissions_def accepted_def List.map_filter_simps
      submit_feedback_def list_feedback_def feedback_request_def driver_request_def
      example_env_def verifyAuth_def req_fields_def field_def js_lt_def js_gt_def feedbackId_def
      decimal.simps digit_def kv_set_def kv_getByPrefix_def c_json_def js_or_def Let_def
      feedback_record_def)

section \<open>The author's email in a feedback record\<close>

text \<open>
  C9. Every record that an accepted submission writes holds the author's email under
  \<^verbatim>\<open>user_email\<close>, next to the author's id under \<^verbatim>\<open>user_id\<close>. The list of the driver's
  feedback, read afterwards by anyone, returns this record as it was written: the
  handler answers the same with or without an \<^verbatim>\<open>Authorization\<close> header, and its only call
  is the scan of the store.
\<close>

theorem feedback_email_public:
  assumes post: "submit_feedback e req s = (r, s', cs)" "status r = 200"
    and auth: "fst (verifyAuth e (authorization req)) = Inr (Some user)"
    and body: "req_fields e req = Inr f"
    and param: "ToString e (f ''driver_id'') = Inr (driverId req')"
    and up: "kv_fault e' (KvGetByPrefix (''feedback:'' @ driverId req' @ '':'')) = None"
  shows "optional_field (feedback_record e user f) ''user_email'' = Str (email user)
     \<and> optional_field (feedback_record e user f) ''user_id'' = Str (userId user)
     \<and> (\<exists>rs. list_feedback e' req' s' =
           (c_json (Obj [(''feedback'', Arr rs)]) 200, s',
            [KvGetByPrefix (''feedback:'' @ driverId req' @ '':'')])
         \<and> feedback_record e user f \<in> set rs)
     \<and> list_feedback e' (req'\<lparr>authorization := None\<rparr>) s' = list_feedback e' req' s'"
proof -
  let ?d = "driverId req'"
  let ?k = "feedbackId ?d (Date_now e) (userId user)"
  let ?pre = "''feedback:'' @ ?d @ '':''"
  let ?rs = "map snd (filter (\<lambda>kv. prefix ?pre (fst kv)) s')"
  have s': "s' = AList.update ?k (feedback_record e user f) s"
    using submit_feedback_ok [OF post auth body] param by (auto simp: write_feedback_def)
  have "map_of s' ?k = Some (feedback_record e user f)"
    by (simp add: s' AList.update_conv')
  then have "(?k, feedback_record e user f) \<in> set s'"
    by (rule map_of_SomeD)
  moreover have "prefix ?pre ?k"
    by (simp add: feedbackId_def)
  ultimately have "feedback_record e user f \<in> set ?rs"
    by force
  moreover have "list_feedback e' req' s' =
      (c_json (Obj [(''feedback'', Arr ?rs)]) 200, s', [KvGetByPrefix ?pre])"
    using up by (simp add: list_feedback_def kv_getByPrefix_def Let_def)
  moreover have "list_feedback e' (req'\<lparr>authorization := None\<rparr>) s' = list_feedback e' req' s'"
    by (simp add: list_feedback_def)
  moreover have "optional_field (feedback_record e user f) ''user_email'' = Str (email user)"
    "optional_field (feedback_record e user f) ''user_id'' = Str (userId user)"
    by (simp_all add: feedback_record_def field_def)
  ultimately show ?thesis by blast
qed

text \<open>At a submission of the caller \<^verbatim>\<open>u1\<close> for the driver \<^verbatim>\<open>d1\<close>, read without a header.\<close>

theorem feedback_email_public_witness:
  "list_feedback example_env (driver_request ''d1'')
      (fst (snd (submit_feedback example_env (feedback_request (Str ''d1'') (Num (Fin 4))) []))) =
     (\<lparr>payload = Obj [(''feedback'', Arr
          [Obj [(''driver_id'', Str ''d1''), (''user_id'', Str ''u1''),
                (''user_email'', Str ''u1@x.com''), (''rating'', Num (Fin 4)),
                (''comment'', Null), (''created_at'', Str ''2024-01-01T00:00:00.000Z'')]])],
        status = 200\<rparr>,
      fst (snd (submit_feedback example_env (feedback_request (Str ''d1'') (Num (Fin 4))) [])),
      [KvGetByPrefix ''feedback:d1:''])
   \<and> authorization (driver_request ''d1'') = None"
  using feedback_email_public
    [of example_env "feedback_request (Str ''d1'') (Num (Fin 4))" "[]"
        "fst (submit_feedback example_env (feedback_request (Str ''d1'') (Num (Fin 4))) [])"
        "fst (snd (submit_feedback example_env (feedback_request (Str ''d1'') (Num (Fin 4))) []))"
        "snd (snd (submit_feedback example_env (feedback_request (Str ''d1'') (Num (Fin 4))) []))"
        "\<lparr>userId = ''u1'', email = ''u1@x.com''\<rparr>"
        "field [(''driver_id'', Str ''d1''), (''rating'', Num (Fin 4))]"
        "driver_request ''d1''" example_env]
  by (simp add: submit_feedback_def list_feedback_def feedback_request_def driver_request_def
      example_env_def verifyAuth_def req_fields_def field_def js_lt_def js_gt_def feedbackId_def
      decimal.simps digit_def kv_set_def kv_getByPrefix_def c_json_def js_or_def Let_def)

end
